theory Spec2Isabelle
  imports Main "HOL-Library.AList"
begin

section \<open>Data model of the upload tracker (src/unnamed/part\_000, third program)\<close>

text \<open>
  The repository holds three generations of one Express server.  The newest one
  (part\_000 from line 278) keeps a process-wide table \<open>uploadStatuses\<close> of upload
  jobs; src/src/server.ts is the stateless predecessor.  Both are embedded here.
  The oldest one (part\_000, lines 18 to 276) has a single \<open>/api/upload-image\<close>
  endpoint and the same proxy handler as the other two; only its proxy is embedded.

  JavaScript values are modelled as follows.  A property that may be missing is an
  \<open>option\<close>; every property of \<open>UploadStatus\<close> is one, because the handlers build
  records with \<open>{...uploadStatuses.get(uploadId)!, ...}\<close> and spreading \<open>undefined\<close>
  (a job evicted in the meantime) yields an object with none of the fields.
  \<open>Map\<close> keeps insertion order, so the table is an association list:
  \<open>AList.update\<close> overwrites in place or appends, as \<open>Map.set\<close> does.
  All records made for one job share the single \<open>tempFiles\<close> array created by
  init-upload (a spread copies the reference), so a \<open>push\<close> on any of them is a
  change of the field of the record in the table.
\<close>

datatype upload_state = Waiting | Compressing | Uploading | Completed | Error | Cancelled

record UploadStatus =
  id_f :: "string option"
  status :: "upload_state option"
  progress :: "nat option"
  originalFilename :: "string option"
  error :: "string option"
  url :: "string option"
  type_f :: "string option"
  timestamp :: "int option"
  abortController :: "nat option"
  tempFiles :: "string list option"

text \<open>The object \<open>{...undefined}\<close>.\<close>

definition no_fields :: UploadStatus where
  "no_fields = \<lparr>id_f = None, status = None, progress = None, originalFilename = None,
     error = None, url = None, type_f = None, timestamp = None, abortController = None,
     tempFiles = None\<rparr>"

text \<open>A thrown JavaScript error: its \<open>name\<close> and its \<open>message\<close>.\<close>

datatype js_error = JsError (err_name: string) (message: string)

datatype 'a outcome = Returned 'a | Threw js_error

text \<open>
  Outgoing requests, in the order they are issued.  A \<open>Fetch\<close> carries the abort
  controller whose signal it is bound to (none in server.ts); \<open>Sleep\<close> is the
  \<open>setTimeout\<close> wait of the polling loop, with its delay in milliseconds.
\<close>

datatype call =
    StagedUploadsCreate string nat
  | BlobPost string
  | FileCreate string string
  | FileCreateBase64 string
  | NodeQuery string

datatype event = Fetch call "nat option" | Sleep nat

text \<open>
  The process state: the job table, the \<open>ffmpegAvailable\<close> flag, the temp directory
  (path to size; \<open>locked\<close> are the paths on which \<open>fs.unlinkSync\<close> throws), the abort
  controllers already signalled, the number of controllers created so far, the
  requests sent, and the lines \<open>console.error\<close> writes where an error is swallowed
  (a failed unlink, a failed status query, a failed transformation); other log
  output is left out.
\<close>

record server_state =
  uploadStatuses :: "(string \<times> UploadStatus) list"
  ffmpegAvailable :: bool
  files :: "string \<rightharpoonup> nat"
  locked :: "string set"
  aborted :: "nat set"
  controllers :: nat
  network :: "event list"
  console :: "string list"

datatype body =
    ErrorBody string
  | UrlBody "string option"
  | UploadIdBody string
  | StatusBody UploadStatus
  | SuccessBody string

datatype response = Response (code: nat) (body: body)

text \<open>JavaScript truthiness of a string-valued property: present and not empty.\<close>

definition truthy :: "string option \<Rightarrow> bool" where
  "truthy v = (case v of None \<Rightarrow> False | Some x \<Rightarrow> x \<noteq> [])"

section \<open>Tracker operations\<close>

text \<open>
  \<open>try { if (fs.existsSync(file)) fs.unlinkSync(file) } catch (error) { console.error(...) }\<close>
  as it stands in the sweep and in the cancel handler.
\<close>

definition delete_error :: "string \<Rightarrow> string" where
  "delete_error file = ''Error deleting temp file '' @ file @ '':''"

definition delete_temp_file :: "string \<Rightarrow> server_state \<Rightarrow> server_state" where
  "delete_temp_file file s =
     (if files s file = None then s
      else if file \<in> locked s
        then s\<lparr>console := console s @ [delete_error file]\<rparr>
        else s\<lparr>files := (files s)(file := None)\<rparr>)"

definition delete_temp_files :: "string list option \<Rightarrow> server_state \<Rightarrow> server_state" where
  "delete_temp_files fs s = (case fs of None \<Rightarrow> s | Some l \<Rightarrow> fold delete_temp_file l s)"

text \<open>The \<open>setInterval\<close> callback, run with \<open>Date.now() = now\<close>.\<close>

definition expired :: "int \<Rightarrow> UploadStatus \<Rightarrow> bool" where
  "expired now st =
     (case timestamp st of None \<Rightarrow> False | Some t \<Rightarrow> t \<noteq> 0 \<and> now - t > 3600000)"

definition sweep_entry :: "int \<Rightarrow> string \<times> UploadStatus \<Rightarrow> server_state \<Rightarrow> server_state" where
  "sweep_entry now e s =
     (if expired now (snd e)
      then (let s1 = delete_temp_files (tempFiles (snd e)) s
            in s1\<lparr>uploadStatuses := AList.delete (fst e) (uploadStatuses s1)\<rparr>)
      else s)"

definition sweep :: "int \<Rightarrow> server_state \<Rightarrow> server_state" where
  "sweep now s = fold (sweep_entry now) (uploadStatuses s) s"

text \<open>
  \<open>POST /api/init-upload\<close>; \<open>uploadId\<close> is the value \<open>uuidv4()\<close> returns and \<open>now\<close>
  the value of \<open>Date.now()\<close>.  An absent body field is the empty string (both falsy).
\<close>

definition init_upload ::
  "string \<Rightarrow> string \<Rightarrow> string \<Rightarrow> int \<Rightarrow> server_state \<Rightarrow> response \<times> server_state" where
  "init_upload filename fileType uploadId now s =
     (if filename = [] \<or> fileType = []
      then (Response 400 (ErrorBody ''Missing filename or fileType''), s)
      else (Response 200 (UploadIdBody uploadId),
            s\<lparr>uploadStatuses := AList.update uploadId
                 \<lparr>id_f = Some uploadId, status = Some Waiting, progress = Some 0,
                  originalFilename = Some filename, error = None, url = None,
                  type_f = Some fileType, timestamp = Some now, abortController = None,
                  tempFiles = Some []\<rparr> (uploadStatuses s)\<rparr>))"

text \<open>\<open>GET /api/upload-status/:uploadId\<close>.\<close>

definition upload_status :: "string \<Rightarrow> server_state \<Rightarrow> response \<times> server_state" where
  "upload_status uploadId s =
     (case (if uploadId = [] then None else map_of (uploadStatuses s) uploadId) of
        None \<Rightarrow> (Response 404 (ErrorBody ''Upload not found''), s)
      | Some st \<Rightarrow> (Response 200 (StatusBody st), s))"

text \<open>\<open>DELETE /api/cancel-upload/:uploadId\<close>.\<close>

definition cancel_upload :: "string \<Rightarrow> server_state \<Rightarrow> response \<times> server_state" where
  "cancel_upload uploadId s =
     (case (if uploadId = [] then None else map_of (uploadStatuses s) uploadId) of
        None \<Rightarrow> (Response 404 (ErrorBody ''Upload not found''), s)
      | Some st \<Rightarrow>
          (let s1 = (case abortController st of
                       None \<Rightarrow> s
                     | Some c \<Rightarrow> s\<lparr>aborted := insert c (aborted s)\<rparr>);
               s2 = s1\<lparr>uploadStatuses := AList.update uploadId
                        (st\<lparr>status := Some Cancelled,
                            error := Some ''Upload cancelled by user''\<rparr>)
                        (uploadStatuses s1)\<rparr>;
               s3 = delete_temp_files (tempFiles st) s2
           in (Response 200 (SuccessBody ''Upload cancelled''), s3)))"

section \<open>Requests that arrive while an upload is suspended\<close>

text \<open>
  Node runs each handler to its next \<open>await\<close> without interruption.  While an
  upload waits there, other requests and the sweep timer are served, each one whole.
  An awaited operation therefore comes with the requests served \<open>meanwhile\<close> and
  with its \<open>answer\<close>.  The answer is not tied to what is served meanwhile: a call
  whose abort controller has been signalled may be given any answer, so that what
  holds for all answers holds for those of an aborted call.  (A second upload-file
  request running for the same job at the same time is not part of the model.)
\<close>

datatype request =
    InitUpload string string string int
  | UploadStatusRequest string
  | CancelUpload string
  | SweepTick int

fun serve :: "request \<Rightarrow> server_state \<Rightarrow> server_state" where
  "serve (InitUpload filename fileType uploadId now) s =
     snd (init_upload filename fileType uploadId now s)"
| "serve (UploadStatusRequest uploadId) s = snd (upload_status uploadId s)"
| "serve (CancelUpload uploadId) s = snd (cancel_upload uploadId s)"
| "serve (SweepTick now) s = sweep now s"

definition interleave :: "request list \<Rightarrow> server_state \<Rightarrow> server_state" where
  "interleave rs s = fold serve rs s"

record 'a awaited =
  meanwhile :: "request list"
  answer :: 'a

section \<open>The staged-upload driver of the tracker variant\<close>

text \<open>What the platform sends back, reduced to the properties the code reads.\<close>

record target =
  target_url :: string
  resourceUrl :: string
  parameters :: "(string \<times> string) list option"

record blob_response =
  ok :: bool
  text_f :: string

text \<open>\<open>files0\<close> is \<open>data?.fileCreate?.files?.[0]\<close>, \<open>source_url\<close> its \<open>sources?.[0]?.url\<close>;
  \<open>userErrors\<close> holds the messages of \<open>data?.fileCreate?.userErrors\<close>.\<close>

record created_file =
  file_id :: "string option"
  image_url :: "string option"
  source_url :: "string option"
  file_url :: "string option"

record file_create_json =
  files0 :: "created_file option"
  userErrors :: "string list"

text \<open>\<open>result.data?.node\<close> of the status query; \<open>sources\<close> lists the \<open>url\<close> of each source.\<close>

record file_node =
  fileStatus :: "string option"
  node_image_url :: "string option"
  sources :: "string option list option"
  node_url :: "string option"

record poll_env =
  query :: "file_node option outcome awaited"
  pause :: "request list"

text \<open>
  Everything one upload request awaits: the image encoder, the one-second
  cancellation checks that fire while ffmpeg runs and ffmpeg's end (a \<open>Returned n\<close>
  is an output file of \<open>n\<close> bytes), the three platform calls (\<open>fetch\<close> together with
  reading the body), and for each polling attempt the status query and the wait.
\<close>

record upload_env =
  sharp_run :: "nat outcome awaited"
  ffmpeg_ticks :: "request list list"
  ffmpeg_end :: "nat outcome awaited"
  staged_run :: "target option outcome awaited"
  blob_run :: "blob_response outcome awaited"
  fileCreate_run :: "file_create_json outcome awaited"
  polls :: "nat \<Rightarrow> poll_env"

text \<open>The file object multer's disk storage hands to the handler.\<close>

record upfile =
  originalname :: string
  mimetype :: string
  size_f :: nat
  path :: string
  filename_f :: string

definition spread :: "UploadStatus option \<Rightarrow> UploadStatus" where
  "spread v = (case v of None \<Rightarrow> no_fields | Some st \<Rightarrow> st)"

text \<open>\<open>uploadStatuses.set(uploadId, {...uploadStatuses.get(uploadId)!, fields})\<close>.\<close>

definition set_fields ::
  "string \<Rightarrow> (UploadStatus \<Rightarrow> UploadStatus) \<Rightarrow> server_state \<Rightarrow> server_state" where
  "set_fields uploadId f s =
     s\<lparr>uploadStatuses :=
         AList.update uploadId (f (spread (map_of (uploadStatuses s) uploadId)))
           (uploadStatuses s)\<rparr>"

text \<open>An assignment to a property of the object \<open>uploadStatuses.get(uploadId)\<close>.\<close>

definition mutate ::
  "string \<Rightarrow> (UploadStatus \<Rightarrow> UploadStatus) \<Rightarrow> server_state \<Rightarrow> server_state" where
  "mutate uploadId f s =
     (case map_of (uploadStatuses s) uploadId of
        None \<Rightarrow> s
      | Some st \<Rightarrow> s\<lparr>uploadStatuses := AList.update uploadId (f st) (uploadStatuses s)\<rparr>)"

definition push_temp :: "string \<Rightarrow> string \<Rightarrow> server_state \<Rightarrow> server_state" where
  "push_temp uploadId p s =
     mutate uploadId
       (\<lambda>st. st\<lparr>tempFiles := Some ((case tempFiles st of None \<Rightarrow> [] | Some l \<Rightarrow> l) @ [p])\<rparr>) s"

definition send :: "call \<Rightarrow> nat option \<Rightarrow> server_state \<Rightarrow> server_state" where
  "send c sig s = s\<lparr>network := network s @ [Fetch c sig]\<rparr>"

definition log_error :: "string \<Rightarrow> server_state \<Rightarrow> server_state" where
  "log_error line s = s\<lparr>console := console s @ [line]\<rparr>"

definition upload_cancelled :: js_error where
  "upload_cancelled = JsError ''Error'' ''Upload cancelled''"

text \<open>\<open>uploadStatuses.get(uploadId)?.status === "cancelled"\<close>.\<close>

definition is_cancelled :: "string \<Rightarrow> server_state \<Rightarrow> bool" where
  "is_cancelled uploadId s =
     (case map_of (uploadStatuses s) uploadId of
        None \<Rightarrow> False
      | Some st \<Rightarrow> status st = Some Cancelled)"

subsection \<open>waitForFileReady (part\_000, line 356)\<close>

text \<open>
  The \<open>try\<close> block of one polling attempt, once the query has been answered: it
  returns a URL, or its \<open>catch\<close> rethrows an abort as a cancellation, or the loop goes
  on, after logging the error the \<open>catch\<close> swallowed if there was one.  The errors
  \<open>File not found\<close> and \<open>Could not find URL for file\<close> are thrown inside the \<open>try\<close>
  and so end in its \<open>catch\<close> as well.
\<close>

datatype poll_step = Found "string option" | Aborted | Again "string option"

definition check_node :: "file_node option outcome \<Rightarrow> poll_step" where
  "check_node r =
     (case r of
        Threw e \<Rightarrow>
          if err_name e = ''AbortError'' then Aborted else Again (Some (message e))
      | Returned None \<Rightarrow> Again (Some ''File not found'')
      | Returned (Some fileNode) \<Rightarrow>
          if fileStatus fileNode = Some ''READY'' then
            (if truthy (node_image_url fileNode) then Found (node_image_url fileNode)
             else (case sources fileNode of
                     Some (src # rest) \<Rightarrow> Found src
                   | _ \<Rightarrow>
                     if truthy (node_url fileNode) then Found (node_url fileNode)
                     else Again (Some ''Could not find URL for file'')))
          else Again None)"

definition log_caught :: "string option \<Rightarrow> server_state \<Rightarrow> server_state" where
  "log_caught logged s =
     (case logged of
        None \<Rightarrow> s
      | Some m \<Rightarrow> log_error (''Error checking file status: '' @ m) s)"

definition sleep :: "nat \<Rightarrow> server_state \<Rightarrow> server_state" where
  "sleep interval s = s\<lparr>network := network s @ [Sleep interval]\<rparr>"

definition timed_out :: js_error where
  "timed_out = JsError ''Error'' ''The file did not become ready in the allotted time.''"

text \<open>
  One status query: a fresh abort controller is stored in the job's record, the
  query is sent bound to its signal, and the handler waits for the answer.
\<close>

definition issue_query ::
  "nat \<Rightarrow> string \<Rightarrow> string \<Rightarrow> (nat \<Rightarrow> poll_env) \<Rightarrow> server_state \<Rightarrow> server_state" where
  "issue_query attempt fileId uploadId ps s =
     interleave (meanwhile (query (ps attempt)))
       (send (NodeQuery fileId) (Some (controllers s))
          (mutate uploadId (\<lambda>st. st\<lparr>abortController := Some (controllers s)\<rparr>)
             (s\<lparr>controllers := Suc (controllers s)\<rparr>)))"

text \<open>The end of an iteration that found nothing: the \<open>catch\<close> has logged what it
  caught, then the loop waits \<open>interval\<close> milliseconds.\<close>

definition wait_interval ::
  "nat \<Rightarrow> nat \<Rightarrow> (nat \<Rightarrow> poll_env) \<Rightarrow> string option \<Rightarrow> server_state \<Rightarrow> server_state" where
  "wait_interval attempt interval ps logged s =
     interleave (pause (ps attempt)) (sleep interval (log_caught logged s))"

function waitForFileReady_from ::
  "nat \<Rightarrow> string \<Rightarrow> string \<Rightarrow> nat \<Rightarrow> nat \<Rightarrow> (nat \<Rightarrow> poll_env) \<Rightarrow> server_state
     \<Rightarrow> string option outcome \<times> server_state" where
  "waitForFileReady_from attempt fileId uploadId maxAttempts interval ps s =
     (if attempt < maxAttempts then
        (if map_of (uploadStatuses s) uploadId = None \<or> is_cancelled uploadId s
         then (Threw upload_cancelled, s)
         else
           (case check_node (answer (query (ps attempt))) of
              Found u \<Rightarrow> (Returned u, issue_query attempt fileId uploadId ps s)
            | Aborted \<Rightarrow> (Threw upload_cancelled, issue_query attempt fileId uploadId ps s)
            | Again logged \<Rightarrow>
                waitForFileReady_from (Suc attempt) fileId uploadId maxAttempts interval ps
                  (wait_interval attempt interval ps logged
                     (issue_query attempt fileId uploadId ps s))))
      else (Threw timed_out, s))"
  by pat_completeness auto
termination
  by (relation "measure (\<lambda>(attempt, fileId, uploadId, maxAttempts, rest). maxAttempts - attempt)")
     auto

declare waitForFileReady_from.simps [simp del]

definition waitForFileReady ::
  "string \<Rightarrow> string \<Rightarrow> nat \<Rightarrow> nat \<Rightarrow> (nat \<Rightarrow> poll_env) \<Rightarrow> server_state
     \<Rightarrow> string option outcome \<times> server_state" where
  "waitForFileReady fileId uploadId maxAttempts interval ps s =
     waitForFileReady_from 0 fileId uploadId maxAttempts interval ps s"

subsection \<open>Local transformation\<close>

text \<open>\<open>fs.copyFileSync\<close>: throws when the source is missing, else writes the copy.\<close>

definition copyFileSync :: "string \<Rightarrow> string \<Rightarrow> server_state \<Rightarrow> unit outcome \<times> server_state" where
  "copyFileSync src dst s =
     (case files s src of
        None \<Rightarrow> (Threw (JsError ''Error'' (''ENOENT: no such file or directory, copyfile '' @ src)), s)
      | Some n \<Rightarrow> (Returned (), s\<lparr>files := (files s)(dst \<mapsto> n)\<rparr>))"

definition compressImage ::
  "string \<Rightarrow> string \<Rightarrow> nat outcome awaited \<Rightarrow> server_state \<Rightarrow> unit outcome \<times> server_state" where
  "compressImage inputPath outputPath run s =
     (let s1 = interleave (meanwhile run) s
      in (case answer run of
            Returned n \<Rightarrow> (Returned (), s1\<lparr>files := (files s1)(outputPath \<mapsto> n)\<rparr>)
          | Threw e \<Rightarrow> (Threw e, s1)))"

text \<open>
  The \<open>setInterval\<close> of compressVideo: at each tick that fires before ffmpeg ends,
  a job that is gone or cancelled kills ffmpeg and rejects.  The result is whether
  that happened.
\<close>

fun checkCancellation :: "request list list \<Rightarrow> string \<Rightarrow> server_state \<Rightarrow> bool \<times> server_state" where
  "checkCancellation [] uploadId s = (False, s)"
| "checkCancellation (rs # ticks) uploadId s =
     (if map_of (uploadStatuses (interleave rs s)) uploadId = None
         \<or> is_cancelled uploadId (interleave rs s)
      then (True, interleave rs s)
      else checkCancellation ticks uploadId (interleave rs s))"

definition compressVideo ::
  "string \<Rightarrow> string \<Rightarrow> string \<Rightarrow> upload_env \<Rightarrow> server_state \<Rightarrow> unit outcome \<times> server_state" where
  "compressVideo inputPath outputPath uploadId env s =
     (if ffmpegAvailable s then
        (case checkCancellation (ffmpeg_ticks env) uploadId s of
           (True, s1) \<Rightarrow> (Threw upload_cancelled, s1)
         | (False, s1) \<Rightarrow>
             (let s2 = interleave (meanwhile (ffmpeg_end env)) s1
              in (case answer (ffmpeg_end env) of
                    Returned n \<Rightarrow> (Returned (), s2\<lparr>files := (files s2)(outputPath \<mapsto> n)\<rparr>)
                  | Threw e \<Rightarrow> (Threw e, s2))))
      else copyFileSync inputPath outputPath s)"

subsection \<open>The platform calls\<close>

definition createStagedUpload ::
  "string \<Rightarrow> string \<Rightarrow> string \<Rightarrow> string \<Rightarrow> string \<Rightarrow> target option outcome awaited
     \<Rightarrow> server_state \<Rightarrow> target outcome \<times> server_state" where
  "createStagedUpload filePath filename mimeType resource uploadId run s =
     (case files s filePath of
        None \<Rightarrow> (Threw (JsError ''Error'' (''ENOENT: no such file or directory, stat '' @ filePath)), s)
      | Some fileSize \<Rightarrow>
          if resource = ''VIDEO'' \<and> fileSize > 100 * 1024 * 1024
          then (Threw (JsError ''Error'' ''Video file exceeds maximum size of 100MB''), s)
          else
            (let c = controllers s;
                 s1 = set_fields uploadId (\<lambda>st. st\<lparr>abortController := Some c\<rparr>)
                        (s\<lparr>controllers := Suc c\<rparr>);
                 s2 = send (StagedUploadsCreate resource fileSize) (Some c) s1;
                 s3 = interleave (meanwhile run) s2
             in (case answer run of
                   Threw e \<Rightarrow> (Threw e, s3)
                 | Returned None \<Rightarrow> (Threw (JsError ''Error'' ''Failed to get download URL''), s3)
                 | Returned (Some tg) \<Rightarrow> (Returned tg, s3))))"

definition uploadFileToS3 ::
  "string \<Rightarrow> target \<Rightarrow> string \<Rightarrow> blob_response outcome awaited
     \<Rightarrow> server_state \<Rightarrow> unit outcome \<times> server_state" where
  "uploadFileToS3 filePath stagedUpload uploadId run s =
     (let s1 = set_fields uploadId (\<lambda>st. st\<lparr>status := Some Uploading, progress := Some 60\<rparr>) s
      in (case parameters stagedUpload of
            None \<Rightarrow> (Threw (JsError ''TypeError'' ''stagedUpload.parameters is not iterable''), s1)
          | Some params \<Rightarrow>
              (let c = controllers s1;
                   s2 = set_fields uploadId (\<lambda>st. st\<lparr>abortController := Some c\<rparr>)
                          (s1\<lparr>controllers := Suc c\<rparr>);
                   s3 = send (BlobPost (target_url stagedUpload)) (Some c) s2;
                   s4 = interleave (meanwhile run) s3
               in (case answer run of
                     Threw e \<Rightarrow> (Threw e, s4)
                   | Returned r \<Rightarrow>
                       if ok r then (Returned (), s4)
                       else (Threw (JsError ''Error'' (''Loading error S3: '' @ text_f r)), s4)))))"

text \<open>
  The registration step shared by the three upload functions: progress 80 (set by
  the caller), a fresh abort controller, the \<open>fileCreate\<close> mutation.
\<close>

definition fileCreate ::
  "string \<Rightarrow> string \<Rightarrow> string \<Rightarrow> file_create_json outcome awaited
     \<Rightarrow> server_state \<Rightarrow> file_create_json outcome \<times> server_state" where
  "fileCreate contentType originalSource uploadId run s =
     (let c = controllers s;
          s1 = set_fields uploadId (\<lambda>st. st\<lparr>abortController := Some c\<rparr>)
                 (s\<lparr>controllers := Suc c\<rparr>);
          s2 = send (FileCreate contentType originalSource) (Some c) s1
      in (answer run, interleave (meanwhile run) s2))"

definition file_prop :: "(created_file \<Rightarrow> string option) \<Rightarrow> file_create_json \<Rightarrow> string option" where
  "file_prop p js = (case files0 js of None \<Rightarrow> None | Some f \<Rightarrow> p f)"

definition uploadImageToShopify ::
  "string \<Rightarrow> string \<Rightarrow> string \<Rightarrow> string \<Rightarrow> upload_env \<Rightarrow> server_state
     \<Rightarrow> string option outcome \<times> server_state" where
  "uploadImageToShopify filePath filename mimeType uploadId env s =
     (case createStagedUpload filePath filename mimeType ''FILE'' uploadId (staged_run env) s of
        (Threw e, s1) \<Rightarrow> (Threw e, s1)
      | (Returned stagedUpload, s1) \<Rightarrow>
     (case uploadFileToS3 filePath stagedUpload uploadId (blob_run env) s1 of
        (Threw e, s2) \<Rightarrow> (Threw e, s2)
      | (Returned u, s2) \<Rightarrow>
     (case fileCreate ''IMAGE'' (resourceUrl stagedUpload) uploadId (fileCreate_run env)
             (set_fields uploadId (\<lambda>st. st\<lparr>status := Some Uploading, progress := Some 80\<rparr>) s2) of
        (Threw e, s3) \<Rightarrow> (Threw e, s3)
      | (Returned fileCreateJson, s3) \<Rightarrow>
          if truthy (file_prop image_url fileCreateJson)
          then (Returned (file_prop image_url fileCreateJson), s3)
          else (case file_prop file_id fileCreateJson of
                  None \<Rightarrow> (Threw (JsError ''Error'' ''Failed to create image in Shopify''), s3)
                | Some fileId \<Rightarrow>
                    if fileId = []
                    then (Threw (JsError ''Error'' ''Failed to create image in Shopify''), s3)
                    else waitForFileReady fileId uploadId 30 5000 (polls env) s3))))"

definition uploadGenericFileToShopify ::
  "string \<Rightarrow> string \<Rightarrow> string \<Rightarrow> string \<Rightarrow> upload_env \<Rightarrow> server_state
     \<Rightarrow> string option outcome \<times> server_state" where
  "uploadGenericFileToShopify filePath filename mimeType uploadId env s =
     (case createStagedUpload filePath filename mimeType ''FILE'' uploadId (staged_run env) s of
        (Threw e, s1) \<Rightarrow> (Threw e, s1)
      | (Returned stagedUpload, s1) \<Rightarrow>
     (case uploadFileToS3 filePath stagedUpload uploadId (blob_run env) s1 of
        (Threw e, s2) \<Rightarrow> (Threw e, s2)
      | (Returned u, s2) \<Rightarrow>
     (case fileCreate ''FILE'' (resourceUrl stagedUpload) uploadId (fileCreate_run env)
             (set_fields uploadId (\<lambda>st. st\<lparr>status := Some Uploading, progress := Some 80\<rparr>) s2) of
        (Threw e, s3) \<Rightarrow> (Threw e, s3)
      | (Returned fileCreateJson, s3) \<Rightarrow>
          if truthy (file_prop file_url fileCreateJson)
          then (Returned (file_prop file_url fileCreateJson), s3)
          else (case file_prop file_id fileCreateJson of
                  None \<Rightarrow> (Threw (JsError ''Error'' ''Failed to create file in Shopify''), s3)
                | Some fileId \<Rightarrow>
                    if fileId = []
                    then (Threw (JsError ''Error'' ''Failed to create file in Shopify''), s3)
                    else waitForFileReady fileId uploadId 30 5000 (polls env) s3))))"

text \<open>uploadVideoToShopify writes its three calls out instead of using the helpers.\<close>

definition video_not_created :: "file_create_json \<Rightarrow> js_error" where
  "video_not_created js =
     (case userErrors js of
        [] \<Rightarrow> JsError ''Error'' ''Failed to create video in Shopify''
      | m # ms \<Rightarrow> JsError ''Error'' m)"

definition uploadVideoToShopify ::
  "string \<Rightarrow> string \<Rightarrow> string \<Rightarrow> string \<Rightarrow> upload_env \<Rightarrow> server_state
     \<Rightarrow> string option outcome \<times> server_state" where
  "uploadVideoToShopify filePath filename mimeType uploadId env s =
     (let s0 = set_fields uploadId (\<lambda>st. st\<lparr>status := Some Uploading, progress := Some 50\<rparr>) s;
          c1 = controllers s0;
          s1 = set_fields uploadId (\<lambda>st. st\<lparr>abortController := Some c1\<rparr>)
                 (s0\<lparr>controllers := Suc c1\<rparr>)
      in (case files s1 filePath of
            None \<Rightarrow> (Threw (JsError ''Error'' (''ENOENT: no such file or directory, stat '' @ filePath)), s1)
          | Some fileSize \<Rightarrow>
     (let s2 = interleave (meanwhile (staged_run env))
                 (send (StagedUploadsCreate ''VIDEO'' fileSize) (Some c1) s1)
      in (case answer (staged_run env) of
            Threw e \<Rightarrow> (Threw e, s2)
          | Returned None \<Rightarrow> (Threw (JsError ''Error'' ''Failed to get download URL for video''), s2)
          | Returned (Some tg) \<Rightarrow>
     (case parameters tg of
        None \<Rightarrow> (Threw (JsError ''TypeError'' ''target.parameters is not iterable''), s2)
      | Some params \<Rightarrow>
     (let s3 = set_fields uploadId (\<lambda>st. st\<lparr>status := Some Uploading, progress := Some 70\<rparr>) s2;
          c2 = controllers s3;
          s4 = set_fields uploadId (\<lambda>st. st\<lparr>abortController := Some c2\<rparr>)
                 (s3\<lparr>controllers := Suc c2\<rparr>);
          s5 = interleave (meanwhile (blob_run env)) (send (BlobPost (target_url tg)) (Some c2) s4)
      in (case answer (blob_run env) of
            Threw e \<Rightarrow> (Threw e, s5)
          | Returned r \<Rightarrow>
              if ok r then
     (case fileCreate ''VIDEO'' (resourceUrl tg) uploadId (fileCreate_run env)
             (set_fields uploadId (\<lambda>st. st\<lparr>status := Some Uploading, progress := Some 80\<rparr>) s5) of
        (Threw e, s6) \<Rightarrow> (Threw e, s6)
      | (Returned fileCreateJson, s6) \<Rightarrow>
          if truthy (file_prop source_url fileCreateJson)
          then (Returned (file_prop source_url fileCreateJson), s6)
          else (case file_prop file_id fileCreateJson of
                  None \<Rightarrow> (Threw (video_not_created fileCreateJson), s6)
                | Some fileId \<Rightarrow>
                    if fileId = [] then (Threw (video_not_created fileCreateJson), s6)
                    else waitForFileReady fileId uploadId 30 5000 (polls env) s6))
              else (Threw (JsError ''Error'' (''Loading error S3: '' @ text_f r)), s5))))))))"

subsection \<open>POST /api/upload-file (part\_000, line 611)\<close>

definition maxSize :: "string \<Rightarrow> nat" where
  "maxSize fileType = (if fileType = ''image'' then 10 * 1024 * 1024 else 100 * 1024 * 1024)"

definition too_large :: "string \<Rightarrow> string" where
  "too_large fileType =
     ''File too large. '' @ (if fileType = ''image'' then ''Images'' else ''Videos'')
       @ '' must be under '' @ (if fileType = ''image'' then ''10MB'' else ''100MB'') @ ''.''"

text \<open>\<open>path.join(tempDir, name)\<close> for a plain file name; \<open>tempDir\<close> is a constant of the
  module (\<open>path.join(__dirname, "temp")\<close>).\<close>

definition tempDir :: string where
  "tempDir = ''temp''"

definition path_join :: "string \<Rightarrow> string \<Rightarrow> string" where
  "path_join dir name = dir @ ''/'' @ name"

definition compressed_path :: "upfile \<Rightarrow> string" where
  "compressed_path file = path_join tempDir (''compressed-'' @ filename_f file)"

definition cancelled_by_user :: response where
  "cancelled_by_user = Response 400 (ErrorBody ''Upload cancelled by user'')"

text \<open>The final \<open>try\<close> of the handler: one \<open>catch\<close> around both deletions.\<close>

definition cleanup :: "string \<Rightarrow> string \<Rightarrow> server_state \<Rightarrow> server_state" where
  "cleanup p1 p2 s =
     (if files s p1 \<noteq> None \<and> p1 \<in> locked s
      then log_error ''Error cleaning up temporary files:'' s
      else (let s1 = s\<lparr>files := (files s)(p1 := None)\<rparr>
            in if files s1 p2 \<noteq> None \<and> p2 \<in> locked s1
               then log_error ''Error cleaning up temporary files:'' s1
               else s1\<lparr>files := (files s1)(p2 := None)\<rparr>))"

text \<open>The outermost \<open>catch\<close>.\<close>

definition loading_error :: "string \<Rightarrow> server_state \<Rightarrow> response \<times> server_state" where
  "loading_error uploadId s =
     (Response 500 (ErrorBody ''Loading error processing file''),
      if uploadId = [] \<or> map_of (uploadStatuses s) uploadId = None then s
      else set_fields uploadId
             (\<lambda>st. st\<lparr>status := Some Error, error := Some ''Loading error processing file''\<rparr>) s)"

text \<open>The second inner \<open>try\<close>: the upload proper.\<close>

definition upload_to_shopify ::
  "upfile \<Rightarrow> string \<Rightarrow> string \<Rightarrow> string \<Rightarrow> upload_env \<Rightarrow> server_state
     \<Rightarrow> string option outcome \<times> server_state" where
  "upload_to_shopify file fileType uploadId compressedFilePath env s =
     (if fileType = ''image''
        then uploadImageToShopify compressedFilePath (originalname file) (mimetype file)
               uploadId env s
      else if fileType = ''video''
        then uploadVideoToShopify compressedFilePath (originalname file) (mimetype file)
               uploadId env s
      else uploadGenericFileToShopify compressedFilePath (originalname file) (mimetype file)
               uploadId env s)"

text \<open>
  What follows the upload: the job is marked completed and the URL is sent, or the
  \<open>catch\<close> answers a cancellation with 400 and returns, or marks the job failed and
  answers 500; the cleanup runs where the handler did not return.
\<close>

definition settle ::
  "upfile \<Rightarrow> string \<Rightarrow> string \<Rightarrow> string option outcome \<Rightarrow> server_state
     \<Rightarrow> response \<times> server_state" where
  "settle file uploadId compressedFilePath r s =
     (case r of
        Returned u \<Rightarrow>
          (Response 200 (UrlBody u),
           cleanup (path file) compressedFilePath
             (set_fields uploadId
                (\<lambda>st. st\<lparr>status := Some Completed, progress := Some 100, url := u\<rparr>) s))
      | Threw e \<Rightarrow>
          if message e = ''Upload cancelled'' then (cancelled_by_user, s)
          else
            (Response 500 (ErrorBody ''Error uploading file''),
             cleanup (path file) compressedFilePath
               (set_fields uploadId
                  (\<lambda>st. st\<lparr>status := Some Error,
                           error := Some (if message e = [] then ''Error uploading file''
                                          else message e)\<rparr>) s)))"

definition send_to_shopify ::
  "upfile \<Rightarrow> string \<Rightarrow> string \<Rightarrow> string \<Rightarrow> upload_env \<Rightarrow> server_state
     \<Rightarrow> response \<times> server_state" where
  "send_to_shopify file fileType uploadId compressedFilePath env s =
     (if is_cancelled uploadId s then (cancelled_by_user, s)
      else settle file uploadId compressedFilePath
             (fst (upload_to_shopify file fileType uploadId compressedFilePath env s))
             (snd (upload_to_shopify file fileType uploadId compressedFilePath env s)))"

text \<open>The first inner \<open>try\<close>: the transformation, with its fallback to the original.\<close>

definition compress ::
  "upfile \<Rightarrow> string \<Rightarrow> string \<Rightarrow> string \<Rightarrow> upload_env \<Rightarrow> server_state
     \<Rightarrow> unit outcome \<times> server_state" where
  "compress file fileType uploadId compressedFilePath env s =
     (if fileType = ''image''
        then compressImage (path file) compressedFilePath (sharp_run env) s
      else if fileType = ''video''
        then compressVideo (path file) compressedFilePath uploadId env s
      else copyFileSync (path file) compressedFilePath s)"

definition now_uploading :: "string \<Rightarrow> server_state \<Rightarrow> server_state" where
  "now_uploading uploadId s =
     set_fields uploadId (\<lambda>st. st\<lparr>status := Some Uploading, progress := Some 30\<rparr>) s"

definition compress_error :: "js_error \<Rightarrow> string" where
  "compress_error e = ''Error compressing file: '' @ message e"

definition after_compress ::
  "upfile \<Rightarrow> string \<Rightarrow> string \<Rightarrow> string \<Rightarrow> upload_env \<Rightarrow> unit outcome \<Rightarrow> server_state
     \<Rightarrow> response \<times> server_state" where
  "after_compress file fileType uploadId compressedFilePath env r s =
     (case r of
        Returned u \<Rightarrow>
          send_to_shopify file fileType uploadId compressedFilePath env (now_uploading uploadId s)
      | Threw e \<Rightarrow>
          if message e = ''Upload cancelled''
          then (cancelled_by_user, log_error (compress_error e) s)
          else
            (case fst (copyFileSync (path file) compressedFilePath
                         (log_error (compress_error e) s)) of
               Threw e2 \<Rightarrow>
                 loading_error uploadId
                   (snd (copyFileSync (path file) compressedFilePath
                           (log_error (compress_error e) s)))
             | Returned u \<Rightarrow>
                 send_to_shopify file fileType uploadId compressedFilePath env
                   (now_uploading uploadId
                      (snd (copyFileSync (path file) compressedFilePath
                              (log_error (compress_error e) s))))))"

definition compress_and_send ::
  "upfile \<Rightarrow> string \<Rightarrow> string \<Rightarrow> string \<Rightarrow> upload_env \<Rightarrow> server_state
     \<Rightarrow> response \<times> server_state" where
  "compress_and_send file fileType uploadId compressedFilePath env s =
     after_compress file fileType uploadId compressedFilePath env
       (fst (compress file fileType uploadId compressedFilePath env s))
       (snd (compress file fileType uploadId compressedFilePath env s))"

text \<open>The handler.  An absent or empty \<open>uploadId\<close> field is the empty string.\<close>

definition upload_file ::
  "upfile option \<Rightarrow> string \<Rightarrow> string \<Rightarrow> upload_env \<Rightarrow> server_state
     \<Rightarrow> response \<times> server_state" where
  "upload_file req_file fileType uploadId env s =
     (case req_file of
        None \<Rightarrow> (Response 400 (ErrorBody ''The file was not uploaded''), s)
      | Some file \<Rightarrow>
          if uploadId = [] \<or> map_of (uploadStatuses s) uploadId = None
          then (Response 400 (ErrorBody ''Invalid upload ID''), s)
          else
            (let s1 = push_temp uploadId (path file) s;
                 s2 = set_fields uploadId
                        (\<lambda>st. st\<lparr>status := Some Compressing, progress := Some 10\<rparr>) s1
             in if size_f file > maxSize fileType
                then (Response 400 (ErrorBody (too_large fileType)),
                      set_fields uploadId
                        (\<lambda>st. st\<lparr>status := Some Error, error := Some (too_large fileType)\<rparr>) s2)
                else if is_cancelled uploadId s2 then (cancelled_by_user, s2)
                else compress_and_send file fileType uploadId (compressed_path file) env
                       (push_temp uploadId (compressed_path file) s2)))"

section \<open>The stateless server (src/src/server.ts)\<close>

text \<open>
  server.ts keeps no job table and binds no abort signal, so nothing another request
  does can reach a running upload: its handler is a function of the request and of
  what the platform answers, and it yields the response and the requests it sent.
\<close>

record memory_file =
  originalname_m :: string
  mimetype_m :: string
  size_m :: nat

record srv_env =
  direct_answer :: "file_create_json outcome"
  staged_answer :: "target option outcome"
  blob_answer :: "blob_response outcome"
  fileCreate_answer :: "file_create_json outcome"
  node_answers :: "nat \<Rightarrow> file_node option outcome"

function srv_waitForFileReady_from ::
  "nat \<Rightarrow> string \<Rightarrow> nat \<Rightarrow> nat \<Rightarrow> (nat \<Rightarrow> file_node option outcome) \<Rightarrow> event list
     \<Rightarrow> string option outcome \<times> event list" where
  "srv_waitForFileReady_from attempt fileId maxAttempts interval ps trace =
     (if attempt < maxAttempts then
        (case ps attempt of
           Threw e \<Rightarrow> (Threw e, trace @ [Fetch (NodeQuery fileId) None])
         | Returned None \<Rightarrow>
             (Threw (JsError ''Error'' ''File not found''), trace @ [Fetch (NodeQuery fileId) None])
         | Returned (Some fileNode) \<Rightarrow>
             if fileStatus fileNode = Some ''READY'' then
               (if truthy (node_image_url fileNode)
                then (Returned (node_image_url fileNode), trace @ [Fetch (NodeQuery fileId) None])
                else (case sources fileNode of
                        Some (src # rest) \<Rightarrow>
                          (Returned src, trace @ [Fetch (NodeQuery fileId) None])
                      | _ \<Rightarrow>
                        if truthy (node_url fileNode)
                        then (Returned (node_url fileNode),
                              trace @ [Fetch (NodeQuery fileId) None])
                        else (Threw (JsError ''Error'' ''Could not find URL for file''),
                              trace @ [Fetch (NodeQuery fileId) None])))
             else srv_waitForFileReady_from (Suc attempt) fileId maxAttempts interval ps
                    (trace @ [Fetch (NodeQuery fileId) None, Sleep interval]))
      else (Threw timed_out, trace))"
  by pat_completeness auto
termination
  by (relation "measure (\<lambda>(attempt, fileId, maxAttempts, rest). maxAttempts - attempt)") auto

declare srv_waitForFileReady_from.simps [simp del]

definition srv_waitForFileReady ::
  "string \<Rightarrow> nat \<Rightarrow> nat \<Rightarrow> (nat \<Rightarrow> file_node option outcome) \<Rightarrow> event list
     \<Rightarrow> string option outcome \<times> event list" where
  "srv_waitForFileReady fileId maxAttempts interval ps trace =
     srv_waitForFileReady_from 0 fileId maxAttempts interval ps trace"

definition srv_maxSize :: "string \<Rightarrow> nat" where
  "srv_maxSize fileType = (if fileType = ''image'' then 10 * 1024 * 1024 else 50 * 1024 * 1024)"

definition srv_too_large :: "string \<Rightarrow> string" where
  "srv_too_large fileType =
     ''File too large. '' @ (if fileType = ''image'' then ''Images'' else ''Videos'')
       @ '' must be under '' @ (if fileType = ''image'' then ''10MB'' else ''50MB'') @ ''.''"

definition srv_loading_error :: response where
  "srv_loading_error = Response 500 (ErrorBody ''Loading error processing file'')"

text \<open>Step 3 and step 4 of the handler: register the blob, then poll if need be.\<close>

definition srv_create_and_wait ::
  "string \<Rightarrow> target \<Rightarrow> srv_env \<Rightarrow> event list \<Rightarrow> response \<times> event list" where
  "srv_create_and_wait fileType tg env trace =
     (let contentType = (if fileType = ''image'' then ''IMAGE'' else ''VIDEO'');
          trace1 = trace @ [Fetch (FileCreate contentType (resourceUrl tg)) None]
      in (case fileCreate_answer env of
            Threw e \<Rightarrow> (srv_loading_error, trace1)
          | Returned fileCreateJson \<Rightarrow>
              if contentType = ''IMAGE'' \<and> truthy (file_prop image_url fileCreateJson)
                then (Response 200 (UrlBody (file_prop image_url fileCreateJson)), trace1)
              else if contentType = ''VIDEO'' \<and> truthy (file_prop source_url fileCreateJson)
                then (Response 200 (UrlBody (file_prop source_url fileCreateJson)), trace1)
              else if truthy (file_prop file_url fileCreateJson)
                then (Response 200 (UrlBody (file_prop file_url fileCreateJson)), trace1)
              else
                (case file_prop file_id fileCreateJson of
                   None \<Rightarrow> (Response 500 (ErrorBody ''Failed to create file in Shopify''), trace1)
                 | Some fileId \<Rightarrow>
                     if fileId = []
                     then (Response 500 (ErrorBody ''Failed to create file in Shopify''), trace1)
                     else
                       (case srv_waitForFileReady fileId 30 5000 (node_answers env) trace1 of
                          (Returned createdFile, trace2) \<Rightarrow>
                            (Response 200 (UrlBody createdFile), trace2)
                        | (Threw e, trace2) \<Rightarrow>
                            (Response 500
                               (ErrorBody ''The file was not ready in the allotted time''),
                             trace2)))))"

text \<open>Step 1 and step 2: the staged target and the multipart POST to it.\<close>

definition srv_staged_upload ::
  "memory_file \<Rightarrow> string \<Rightarrow> srv_env \<Rightarrow> event list \<Rightarrow> response \<times> event list" where
  "srv_staged_upload file fileType env trace =
     (let trace1 = trace @ [Fetch (StagedUploadsCreate
                              (if fileType = ''video'' then ''VIDEO'' else ''FILE'') (size_m file)) None]
      in (case staged_answer env of
            Threw e \<Rightarrow> (srv_loading_error, trace1)
          | Returned None \<Rightarrow> (Response 500 (ErrorBody ''Failed to get download URL''), trace1)
          | Returned (Some tg) \<Rightarrow>
              (case parameters tg of
                 None \<Rightarrow> (srv_loading_error, trace1)
               | Some params \<Rightarrow>
                   (case blob_answer env of
                      Threw e \<Rightarrow> (srv_loading_error, trace1 @ [Fetch (BlobPost (target_url tg)) None])
                    | Returned r \<Rightarrow>
                        if ok r
                        then srv_create_and_wait fileType tg env
                               (trace1 @ [Fetch (BlobPost (target_url tg)) None])
                        else (Response 500 (ErrorBody ''Loading error S3''),
                              trace1 @ [Fetch (BlobPost (target_url tg)) None])))))"

text \<open>\<open>POST /api/upload-file\<close> of server.ts.  A video is first sent inline as a
  generic file; when that yields no URL the staged upload follows.\<close>

definition srv_upload_file ::
  "memory_file option \<Rightarrow> string \<Rightarrow> srv_env \<Rightarrow> response \<times> event list" where
  "srv_upload_file req_file fileType env =
     (case req_file of
        None \<Rightarrow> (Response 400 (ErrorBody ''The file was not uploaded''), [])
      | Some file \<Rightarrow>
          if size_m file > srv_maxSize fileType
          then (Response 400 (ErrorBody (srv_too_large fileType)), [])
          else if fileType = ''video'' then
            (case direct_answer env of
               Returned genericFileJson \<Rightarrow>
                 if truthy (file_prop file_url genericFileJson)
                 then (Response 200 (UrlBody (file_prop file_url genericFileJson)),
                       [Fetch (FileCreateBase64 (originalname_m file)) None])
                 else srv_staged_upload file fileType env
                        [Fetch (FileCreateBase64 (originalname_m file)) None]
             | Threw e \<Rightarrow>
                 srv_staged_upload file fileType env
                   [Fetch (FileCreateBase64 (originalname_m file)) None])
          else srv_staged_upload file fileType env [])"

section \<open>POST /shopify-admin-proxy (the same code in every variant)\<close>

text \<open>
  \<open>'j\<close> is the type of JSON values.  \<open>JSON.stringify(req.body)\<close> followed by the
  platform's parsing gives the value back, so the body is carried as it is.  The
  platform is a function of the request it receives: it fails to answer (\<open>fetch\<close>
  rejects), or answers with a status that is a success or not and a body that
  parses as JSON or does not.
\<close>

record 'j outgoing =
  to_url :: string
  http_method :: string
  headers :: "(string \<times> string) list"
  payload :: 'j

record 'j platform_response =
  response_ok :: bool
  response_json :: "'j outcome"

datatype 'j proxy_response = Verbatim 'j | Failure nat string

definition proxy_request :: "string \<Rightarrow> string \<Rightarrow> 'j \<Rightarrow> 'j outgoing" where
  "proxy_request domain token req_body =
     \<lparr>to_url = ''https://'' @ domain @ ''/admin/api/2025-04/graphql.json'',
      http_method = ''POST'',
      headers = [(''Content-Type'', ''application/json''),
                 (''X-Shopify-Access-Token'', token)],
      payload = req_body\<rparr>"

definition shopify_admin_proxy ::
  "string \<Rightarrow> string \<Rightarrow> ('j outgoing \<Rightarrow> 'j platform_response outcome) \<Rightarrow> 'j
     \<Rightarrow> 'j proxy_response" where
  "shopify_admin_proxy domain token platform req_body =
     (case platform (proxy_request domain token req_body) of
        Threw e \<Rightarrow> Failure 500 ''Internal server error''
      | Returned r \<Rightarrow>
          if response_ok r then
            (case response_json r of
               Threw e \<Rightarrow> Failure 500 ''Internal server error''
             | Returned data \<Rightarrow> Verbatim data)
          else Failure 500 ''Internal server error'')"

section \<open>Reading the list of requests\<close>

fun is_node_query :: "event \<Rightarrow> bool" where
  "is_node_query (Fetch (NodeQuery fileId) sig) = True"
| "is_node_query e = False"

text \<open>A list of events is paced when every request in it but the last is followed by
  a wait of \<open>interval\<close> milliseconds, and nothing else is in it.\<close>

fun paced :: "nat \<Rightarrow> event list \<Rightarrow> bool" where
  "paced interval [] = True"
| "paced interval [Fetch c sig] = True"
| "paced interval (Fetch c sig # Sleep d # rest) = (d = interval \<and> paced interval rest)"
| "paced interval es = False"

section \<open>Concrete runs\<close>

text \<open>
  A freshly started server, one registered image job whose file multer has written
  to the temp directory, and a platform that answers every call at once and hands
  out the image URL with the \<open>fileCreate\<close> response.
\<close>

definition boot :: server_state where
  "boot = \<lparr>uploadStatuses = [], ffmpegAvailable = True, files = Map.empty, locked = {},
     aborted = {}, controllers = 0, network = [], console = []\<rparr>"

definition cat_png :: upfile where
  "cat_png = \<lparr>originalname = ''cat.png'', mimetype = ''image/png'', size_f = 2048,
     path = ''temp/1-cat.png'', filename_f = ''1-cat.png''\<rparr>"

definition registered :: server_state where
  "registered =
     (snd (init_upload ''cat.png'' ''image'' ''u1'' 1000 boot))
       \<lparr>files := [''temp/1-cat.png'' \<mapsto> 2048]\<rparr>"

definition at_once :: "'a \<Rightarrow> 'a awaited" where
  "at_once a = \<lparr>meanwhile = [], answer = a\<rparr>"

definition a_target :: target where
  "a_target = \<lparr>target_url = ''https://blob.example/put'',
     resourceUrl = ''https://blob.example/res'', parameters = Some [(''key'', ''k1'')]\<rparr>"

definition image_created :: file_create_json where
  "image_created =
     \<lparr>files0 = Some \<lparr>file_id = Some ''gid://1'', image_url = Some ''https://cdn.example/cat.jpg'',
                     source_url = None, file_url = None\<rparr>,
      userErrors = []\<rparr>"

definition never_ready :: "nat \<Rightarrow> poll_env" where
  "never_ready n =
     \<lparr>query = at_once (Returned (Some \<lparr>fileStatus = Some ''PROCESSING'', node_image_url = None,
                                       sources = None, node_url = None\<rparr>)),
      pause = []\<rparr>"

definition smooth :: upload_env where
  "smooth = \<lparr>sharp_run = at_once (Returned 1024), ffmpeg_ticks = [],
     ffmpeg_end = at_once (Returned 1024),
     staged_run = at_once (Returned (Some a_target)),
     blob_run = at_once (Returned \<lparr>ok = True, text_f = []\<rparr>),
     fileCreate_run = at_once (Returned image_created),
     polls = never_ready\<rparr>"

text \<open>The state in which that upload waits for the image encoder.\<close>

definition suspended :: server_state where
  "suspended =
     push_temp ''u1'' (path_join tempDir ''compressed-1-cat.png'')
       (set_fields ''u1'' (\<lambda>st. st\<lparr>status := Some Compressing, progress := Some 10\<rparr>)
          (push_temp ''u1'' ''temp/1-cat.png'' registered))"

definition finished :: server_state where
  "finished = snd (upload_file (Some cat_png) ''image'' ''u1'' smooth registered)"

text \<open>The same upload at the moment the encoder has written its output.\<close>

definition encoded :: server_state where
  "encoded = suspended\<lparr>files := (files suspended)(''temp/compressed-1-cat.png'' \<mapsto> 1024)\<rparr>"

text \<open>A platform whose \<open>fileCreate\<close> hands out an identifier only and whose status
  query never reports \<open>READY\<close>.\<close>

definition id_only :: file_create_json where
  "id_only = \<lparr>files0 = Some \<lparr>file_id = Some ''gid://1'', image_url = None,
                     source_url = None, file_url = None\<rparr>, userErrors = []\<rparr>"

definition stalling :: upload_env where
  "stalling = smooth\<lparr>fileCreate_run := at_once (Returned id_only)\<rparr>"





text \<open>The user cancels the job \<open>u1\<close> while the image encoder is running.\<close>

definition cancelled_while_encoding :: upload_env where
  "cancelled_while_encoding =
     smooth\<lparr>sharp_run := \<lparr>meanwhile = [CancelUpload ''u1''], answer = Returned 1024\<rparr>\<rparr>"

text \<open>An image of 11 MB registered as job \<open>u2\<close>, and a platform that refuses the
  proxied request with a JSON error body (an HTTP status outside 200..299).\<close>

definition big_png :: upfile where
  "big_png = \<lparr>originalname = ''big.png'', mimetype = ''image/png'',
     size_f = 11 * 1024 * 1024, path = ''temp/2-big.png'', filename_f = ''2-big.png''\<rparr>"

definition registered_big :: server_state where
  "registered_big =
     (snd (init_upload ''big.png'' ''image'' ''u2'' 2000 boot))
       \<lparr>files := [''temp/2-big.png'' \<mapsto> 11 * 1024 * 1024]\<rparr>"



definition refusing :: "string outgoing \<Rightarrow> string platform_response outcome" where
  "refusing rq = Returned \<lparr>response_ok = False,
     response_json = Returned ''errors: Invalid API key or access token''\<rparr>"

definition answering :: "string outgoing \<Rightarrow> string platform_response outcome" where
  "answering rq = Returned \<lparr>response_ok = True,
     response_json = Returned (''data for '' @ payload rq)\<rparr>"



section \<open>What it is for a job to fail\<close>


section \<open>Facts about the tracker\<close>

lemma delete_temp_file_frame:
  "uploadStatuses (delete_temp_file f s) = uploadStatuses s"
  "locked (delete_temp_file f s) = locked s"
  "aborted (delete_temp_file f s) = aborted s"
  "network (delete_temp_file f s) = network s"
  "controllers (delete_temp_file f s) = controllers s"
  "ffmpegAvailable (delete_temp_file f s) = ffmpegAvailable s"
  by (simp_all add: delete_temp_file_def)

lemma delete_temp_file_files:
  "files (delete_temp_file f s) p = (if p = f \<and> f \<notin> locked s then None else files s p)"
  by (simp add: delete_temp_file_def)

lemma fold_delete_temp_file_frame:
  "uploadStatuses (fold delete_temp_file l s) = uploadStatuses s"
  "locked (fold delete_temp_file l s) = locked s"
  "aborted (fold delete_temp_file l s) = aborted s"
  "network (fold delete_temp_file l s) = network s"
  "controllers (fold delete_temp_file l s) = controllers s"
  "ffmpegAvailable (fold delete_temp_file l s) = ffmpegAvailable s"
  by (induction l arbitrary: s; simp add: delete_temp_file_frame)+

lemma fold_delete_temp_file_files:
  "files (fold delete_temp_file l s) p =
     (if p \<in> set l \<and> p \<notin> locked s then None else files s p)"
  by (induction l arbitrary: s)
     (auto simp: delete_temp_file_files delete_temp_file_frame)

lemma delete_temp_files_frame:
  "uploadStatuses (delete_temp_files fs s) = uploadStatuses s"
  "locked (delete_temp_files fs s) = locked s"
  "aborted (delete_temp_files fs s) = aborted s"
  "network (delete_temp_files fs s) = network s"
  "controllers (delete_temp_files fs s) = controllers s"
  "ffmpegAvailable (delete_temp_files fs s) = ffmpegAvailable s"
  by (simp_all add: delete_temp_files_def fold_delete_temp_file_frame split: option.splits)

lemma delete_temp_files_files:
  "files (delete_temp_files (Some l) s) p =
     (if p \<in> set l \<and> p \<notin> locked s then None else files s p)"
  by (simp add: delete_temp_files_def fold_delete_temp_file_files)

lemma cancel_upload_known:
  assumes "uploadId \<noteq> []" and "map_of (uploadStatuses s) uploadId = Some st"
  shows "cancel_upload uploadId s =
     (Response 200 (SuccessBody ''Upload cancelled''),
      delete_temp_files (tempFiles st)
        ((case abortController st of None \<Rightarrow> s | Some c \<Rightarrow> s\<lparr>aborted := insert c (aborted s)\<rparr>)
          \<lparr>uploadStatuses := AList.update uploadId
              (st\<lparr>status := Some Cancelled, error := Some ''Upload cancelled by user''\<rparr>)
              (uploadStatuses s)\<rparr>))"
  using assms by (simp add: cancel_upload_def Let_def split: option.splits)

lemma cancel_upload_table:
  assumes "uploadId \<noteq> []" and "map_of (uploadStatuses s) uploadId = Some st"
  shows "map_of (uploadStatuses (snd (cancel_upload uploadId s))) =
     (map_of (uploadStatuses s))(uploadId \<mapsto>
        st\<lparr>status := Some Cancelled, error := Some ''Upload cancelled by user''\<rparr>)"
  using assms
  by (simp add: cancel_upload_known delete_temp_files_frame update_conv' split: option.splits)

lemma sweep_fold_table:
  "map_of (uploadStatuses (fold (sweep_entry now) es s)) k =
     (if k \<in> fst ` {e \<in> set es. expired now (snd e)} then None
      else map_of (uploadStatuses s) k)"
proof (induction es arbitrary: s)
  case Nil
  show ?case by simp
next
  case (Cons e es)
  let ?later = "fst ` {x \<in> set es. expired now (snd x)}"
  have first: "map_of (uploadStatuses (sweep_entry now e s)) k =
      (if k = fst e \<and> expired now (snd e) then None else map_of (uploadStatuses s) k)"
    by (simp add: sweep_entry_def Let_def delete_temp_files_frame delete_conv')
  have mem: "k \<in> fst ` {x \<in> set (e # es). expired now (snd x)} \<longleftrightarrow>
      (k = fst e \<and> expired now (snd e)) \<or> k \<in> ?later"
    by auto
  have "map_of (uploadStatuses (fold (sweep_entry now) (e # es) s)) k =
      map_of (uploadStatuses (fold (sweep_entry now) es (sweep_entry now e s))) k"
    by simp
  also have "\<dots> = (if k \<in> ?later then None
      else map_of (uploadStatuses (sweep_entry now e s)) k)"
    by (rule Cons.IH)
  also have "\<dots> = (if (k = fst e \<and> expired now (snd e)) \<or> k \<in> ?later then None
      else map_of (uploadStatuses s) k)"
    unfolding first by (cases "k \<in> ?later") simp_all
  finally show ?case
    unfolding mem .
qed

lemma sweep_table:
  assumes "distinct (map fst (uploadStatuses s))"
  shows "map_of (uploadStatuses (sweep now s)) k =
     (case map_of (uploadStatuses s) k of
        None \<Rightarrow> None
      | Some st \<Rightarrow> if expired now st then None else Some st)"
proof (cases "map_of (uploadStatuses s) k")
  case None
  then show ?thesis by (simp add: sweep_def sweep_fold_table)
next
  case (Some st)
  have "k \<in> fst ` {e \<in> set (uploadStatuses s). expired now (snd e)} \<longleftrightarrow> expired now st"
  proof
    assume "k \<in> fst ` {e \<in> set (uploadStatuses s). expired now (snd e)}"
    then obtain v where v: "(k, v) \<in> set (uploadStatuses s)" "expired now v" by auto
    from v(1) assms have "map_of (uploadStatuses s) k = Some v" by simp
    with Some v(2) show "expired now st" by simp
  next
    assume e: "expired now st"
    from Some have "(k, st) \<in> set (uploadStatuses s)" by (rule map_of_SomeD)
    with e show "k \<in> fst ` {e \<in> set (uploadStatuses s). expired now (snd e)}" by force
  qed
  with Some show ?thesis by (simp add: sweep_def sweep_fold_table)
qed

lemmas run_defs =
  boot_def cat_png_def registered_def at_once_def a_target_def image_created_def
  never_ready_def smooth_def
  init_upload_def upload_file_def push_temp_def mutate_def set_fields_def spread_def
  maxSize_def is_cancelled_def path_join_def tempDir_def compressed_path_def
  compress_and_send_def after_compress_def compress_def
  compressImage_def interleave_def now_uploading_def send_to_shopify_def
  upload_to_shopify_def settle_def
  uploadImageToShopify_def createStagedUpload_def uploadFileToS3_def fileCreate_def
  send_def file_prop_def truthy_def cleanup_def log_error_def Let_def
  issue_query_def wait_interval_def sleep_def log_caught_def waitForFileReady_def

lemma finished_record:
  "map_of (uploadStatuses finished) ''u1'' =
     Some \<lparr>id_f = Some ''u1'', status = Some Completed, progress = Some 100,
       originalFilename = Some ''cat.png'', error = None,
       url = Some ''https://cdn.example/cat.jpg'', type_f = Some ''image'',
       timestamp = Some 1000, abortController = Some 2,
       tempFiles = Some [''temp/1-cat.png'', ''temp/compressed-1-cat.png'']\<rparr>"
  by (simp add: finished_def run_defs)

text \<open>
  Claim C1 as the specification has it: once a job is completed, failed or cancelled
  no later operation changes its status, and a cancel request on such a job leaves
  status, url and error as they were.  The handler has no such guard.  In the run
  below the job \<open>u1\<close> is completed with no error; the cancel request that follows
  makes it cancelled and gives it an error message.
\<close>

theorem cancel_overwrites_completed:
  "map_option status (map_of (uploadStatuses finished) ''u1'') = Some (Some Completed)
   \<and> map_option status (map_of (uploadStatuses (snd (cancel_upload ''u1'' finished))) ''u1'')
       = Some (Some Cancelled)
   \<and> map_option error (map_of (uploadStatuses finished) ''u1'') = Some None
   \<and> map_option error (map_of (uploadStatuses (snd (cancel_upload ''u1'' finished))) ''u1'')
       = Some (Some ''Upload cancelled by user'')"
  by (simp add: cancel_upload_table finished_record)

text \<open>
  Claim C1, amended: a cancel request on a registered job, in whatever state, sets
  its status to cancelled and its error to the fixed message and leaves every other
  field, the url included, as it was.  It changes nothing only when the job already
  carries that status and that message.
\<close>

theorem cancel_marks_any_job_cancelled:
  assumes "uploadId \<noteq> []" and "map_of (uploadStatuses s) uploadId = Some st"
  shows "map_of (uploadStatuses (snd (cancel_upload uploadId s))) uploadId =
           Some (st\<lparr>status := Some Cancelled, error := Some ''Upload cancelled by user''\<rparr>)
         \<and> map_option url (map_of (uploadStatuses (snd (cancel_upload uploadId s))) uploadId)
             = Some (url st)
         \<and> (status st = Some Cancelled \<and> error st = Some ''Upload cancelled by user''
              \<longrightarrow> map_of (uploadStatuses (snd (cancel_upload uploadId s))) uploadId = Some st)"
  using assms by (simp add: cancel_upload_table)

theorem cancel_marks_any_job_cancelled_witness:
  "map_of (uploadStatuses (snd (cancel_upload ''u1'' finished))) ''u1'' =
     Some \<lparr>id_f = Some ''u1'', status = Some Cancelled, progress = Some 100,
       originalFilename = Some ''cat.png'', error = Some ''Upload cancelled by user'',
       url = Some ''https://cdn.example/cat.jpg'', type_f = Some ''image'',
       timestamp = Some 1000, abortController = Some 2,
       tempFiles = Some [''temp/1-cat.png'', ''temp/compressed-1-cat.png'']\<rparr>"
proof -
  have known: "''u1'' \<noteq> []" by simp
  from cancel_marks_any_job_cancelled [OF known finished_record]
  show ?thesis by simp
qed

lemma console_kept:
  "x \<in> set (console s) \<Longrightarrow> x \<in> set (console (fold delete_temp_file l s))"
  by (induction l arbitrary: s) (auto simp: delete_temp_file_def)

lemma delete_failure_logged:
  "p \<in> set l \<Longrightarrow> files s p \<noteq> None \<Longrightarrow> p \<in> locked s \<Longrightarrow>
     delete_error p \<in> set (console (fold delete_temp_file l s))"
proof (induction l arbitrary: s)
  case Nil
  then show ?case by simp
next
  case (Cons a l)
  show ?case
  proof (cases "p = a")
    case True
    with Cons.prems have
      "delete_error p \<in> set (console (delete_temp_file a s))"
      by (auto simp: delete_temp_file_def)
    then show ?thesis by (simp add: console_kept)
  next
    case False
    with Cons.prems have "p \<in> set l" "files (delete_temp_file a s) p \<noteq> None"
      "p \<in> locked (delete_temp_file a s)"
      by (auto simp: delete_temp_file_files delete_temp_file_frame)
    then have "delete_error p \<in> set (console (fold delete_temp_file l (delete_temp_file a s)))"
      by (rule Cons.IH)
    then show ?thesis by simp
  qed
qed

text \<open>
  Claim C2: a cancel request for an unknown job answers 404 and changes nothing.
  For a registered job that is waiting, compressing or uploading it answers with
  success, signals the job's abort controller if there is one, records the status
  cancelled with the fixed message, and goes through every path of \<open>tempFiles\<close>:
  a path that can be unlinked is absent afterwards, a path whose unlink throws stays
  and the failure is written to the console, without effect on the other paths or
  on the response.
\<close>

theorem cancel_running_job:
  "(uploadId = [] \<or> map_of (uploadStatuses s) uploadId = None \<longrightarrow>
      cancel_upload uploadId s = (Response 404 (ErrorBody ''Upload not found''), s))
   \<and> (uploadId \<noteq> [] \<and> map_of (uploadStatuses s) uploadId = Some st
        \<and> status st \<in> {Some Waiting, Some Compressing, Some Uploading} \<longrightarrow>
      fst (cancel_upload uploadId s) = Response 200 (SuccessBody ''Upload cancelled'')
      \<and> (\<forall>c. abortController st = Some c \<longrightarrow> c \<in> aborted (snd (cancel_upload uploadId s)))
      \<and> map_of (uploadStatuses (snd (cancel_upload uploadId s))) uploadId =
           Some (st\<lparr>status := Some Cancelled, error := Some ''Upload cancelled by user''\<rparr>)
      \<and> (\<forall>l p. tempFiles st = Some l \<and> p \<in> set l \<longrightarrow>
            (if p \<in> locked s
             then files (snd (cancel_upload uploadId s)) p = files s p
                  \<and> (files s p \<noteq> None \<longrightarrow>
                       delete_error p
                         \<in> set (console (snd (cancel_upload uploadId s))))
             else files (snd (cancel_upload uploadId s)) p = None)))"
proof (intro conjI impI)
  assume "uploadId = [] \<or> map_of (uploadStatuses s) uploadId = None"
  then show "cancel_upload uploadId s = (Response 404 (ErrorBody ''Upload not found''), s)"
    by (auto simp: cancel_upload_def)
next
  assume h: "uploadId \<noteq> [] \<and> map_of (uploadStatuses s) uploadId = Some st
        \<and> status st \<in> {Some Waiting, Some Compressing, Some Uploading}"
  then have known: "uploadId \<noteq> []" "map_of (uploadStatuses s) uploadId = Some st" by simp_all
  note eq = cancel_upload_known [OF known]
  show "fst (cancel_upload uploadId s) = Response 200 (SuccessBody ''Upload cancelled'')"
    by (simp add: eq)
  show "\<forall>c. abortController st = Some c \<longrightarrow> c \<in> aborted (snd (cancel_upload uploadId s))"
    by (simp add: eq delete_temp_files_frame)
  show "map_of (uploadStatuses (snd (cancel_upload uploadId s))) uploadId =
           Some (st\<lparr>status := Some Cancelled, error := Some ''Upload cancelled by user''\<rparr>)"
    by (simp add: cancel_upload_table [OF known])
  show "\<forall>l p. tempFiles st = Some l \<and> p \<in> set l \<longrightarrow>
            (if p \<in> locked s
             then files (snd (cancel_upload uploadId s)) p = files s p
                  \<and> (files s p \<noteq> None \<longrightarrow>
                       delete_error p
                         \<in> set (console (snd (cancel_upload uploadId s))))
             else files (snd (cancel_upload uploadId s)) p = None)"
  proof (intro allI impI)
    fix l p
    assume t: "tempFiles st = Some l \<and> p \<in> set l"
    let ?s2 = "(case abortController st of None \<Rightarrow> s
                 | Some c \<Rightarrow> s\<lparr>aborted := insert c (aborted s)\<rparr>)
          \<lparr>uploadStatuses := AList.update uploadId
              (st\<lparr>status := Some Cancelled, error := Some ''Upload cancelled by user''\<rparr>)
              (uploadStatuses s)\<rparr>"
    have base: "files ?s2 = files s" "locked ?s2 = locked s"
      by (simp_all split: option.splits)
    have after: "snd (cancel_upload uploadId s) = fold delete_temp_file l ?s2"
      using t by (simp add: eq delete_temp_files_def)
    show "if p \<in> locked s
             then files (snd (cancel_upload uploadId s)) p = files s p
                  \<and> (files s p \<noteq> None \<longrightarrow>
                       delete_error p
                         \<in> set (console (snd (cancel_upload uploadId s))))
             else files (snd (cancel_upload uploadId s)) p = None"
    proof (cases "p \<in> locked s")
      case True
      have "files (fold delete_temp_file l ?s2) p = files s p"
        using True by (simp add: fold_delete_temp_file_files base)
      moreover have "files s p \<noteq> None \<longrightarrow>
          delete_error p \<in> set (console (fold delete_temp_file l ?s2))"
        using True t by (auto intro!: delete_failure_logged simp: base)
      ultimately show ?thesis using True by (simp add: after)
    next
      case False
      then show ?thesis using t by (simp add: after fold_delete_temp_file_files base)
    qed
  qed
qed


lemma suspended_record:
  "map_of (uploadStatuses suspended) ''u1'' =
     Some \<lparr>id_f = Some ''u1'', status = Some Compressing, progress = Some 10,
       originalFilename = Some ''cat.png'', error = None, url = None,
       type_f = Some ''image'', timestamp = Some 1000, abortController = None,
       tempFiles = Some [''temp/1-cat.png'', ''temp/compressed-1-cat.png'']\<rparr>"
  by (simp add: suspended_def run_defs)

theorem cancel_running_job_witness:
  "cancel_upload ''u2'' suspended = (Response 404 (ErrorBody ''Upload not found''), suspended)
   \<and> fst (cancel_upload ''u1'' suspended) = Response 200 (SuccessBody ''Upload cancelled'')
   \<and> map_option status (map_of (uploadStatuses (snd (cancel_upload ''u1'' suspended))) ''u1'')
        = Some (Some Cancelled)
   \<and> files suspended ''temp/1-cat.png'' = Some 2048
   \<and> files (snd (cancel_upload ''u1'' suspended)) ''temp/1-cat.png'' = None"
proof -
  have unknown: "map_of (uploadStatuses suspended) ''u2'' = None"
    by (simp add: suspended_def run_defs)
  have there: "files suspended ''temp/1-cat.png'' = Some 2048"
    by (simp add: suspended_def run_defs)
  have free: "''temp/1-cat.png'' \<notin> locked suspended"
    by (simp add: suspended_def run_defs)
  from cancel_running_job [of "''u2''" suspended] unknown
  have first: "cancel_upload ''u2'' suspended
      = (Response 404 (ErrorBody ''Upload not found''), suspended)"
    by simp
  let ?st = "\<lparr>id_f = Some ''u1'', status = Some Compressing, progress = Some 10,
       originalFilename = Some ''cat.png'', error = None, url = None,
       type_f = Some ''image'', timestamp = Some 1000, abortController = None,
       tempFiles = Some [''temp/1-cat.png'', ''temp/compressed-1-cat.png'']\<rparr>"
  from cancel_running_job [of "''u1''" suspended ?st] suspended_record
  have second: "fst (cancel_upload ''u1'' suspended) = Response 200 (SuccessBody ''Upload cancelled'')"
    and third: "map_of (uploadStatuses (snd (cancel_upload ''u1'' suspended))) ''u1'' =
           Some (?st\<lparr>status := Some Cancelled, error := Some ''Upload cancelled by user''\<rparr>)"
    and fourth: "\<forall>l p. tempFiles ?st = Some l \<and> p \<in> set l \<longrightarrow>
            (if p \<in> locked suspended
             then files (snd (cancel_upload ''u1'' suspended)) p = files suspended p
                  \<and> (files suspended p \<noteq> None \<longrightarrow>
                       delete_error p \<in> set (console (snd (cancel_upload ''u1'' suspended))))
             else files (snd (cancel_upload ''u1'' suspended)) p = None)"
    by simp_all
  from fourth [rule_format, of "[''temp/1-cat.png'', ''temp/compressed-1-cat.png'']"
      "''temp/1-cat.png''"] free
  have gone: "files (snd (cancel_upload ''u1'' suspended)) ''temp/1-cat.png'' = None"
    by simp
  from first second third there gone show ?thesis by simp
qed

section \<open>Facts about the upload handler\<close>

lemma set_fields_frame:
  "files (set_fields u f s) = files s"
  "locked (set_fields u f s) = locked s"
  "aborted (set_fields u f s) = aborted s"
  "network (set_fields u f s) = network s"
  "controllers (set_fields u f s) = controllers s"
  "console (set_fields u f s) = console s"
  "ffmpegAvailable (set_fields u f s) = ffmpegAvailable s"
  by (simp_all add: set_fields_def)

lemma set_fields_table:
  "map_of (uploadStatuses (set_fields u f s)) =
     (map_of (uploadStatuses s))(u \<mapsto> f (spread (map_of (uploadStatuses s) u)))"
  by (simp add: set_fields_def update_conv')

lemma mutate_frame:
  "files (mutate u f s) = files s"
  "locked (mutate u f s) = locked s"
  "aborted (mutate u f s) = aborted s"
  "network (mutate u f s) = network s"
  "controllers (mutate u f s) = controllers s"
  "console (mutate u f s) = console s"
  "ffmpegAvailable (mutate u f s) = ffmpegAvailable s"
  by (simp_all add: mutate_def split: option.splits)

lemma mutate_table:
  "map_of (uploadStatuses (mutate u f s)) =
     (case map_of (uploadStatuses s) u of
        None \<Rightarrow> map_of (uploadStatuses s)
      | Some st \<Rightarrow> (map_of (uploadStatuses s))(u \<mapsto> f st))"
  by (simp add: mutate_def update_conv' split: option.splits)

lemma push_temp_frame:
  "files (push_temp u p s) = files s"
  "locked (push_temp u p s) = locked s"
  "aborted (push_temp u p s) = aborted s"
  "network (push_temp u p s) = network s"
  "controllers (push_temp u p s) = controllers s"
  "console (push_temp u p s) = console s"
  "ffmpegAvailable (push_temp u p s) = ffmpegAvailable s"
  by (simp_all add: push_temp_def mutate_frame)

lemma cleanup_frame:
  "uploadStatuses (cleanup p1 p2 s) = uploadStatuses s"
  "network (cleanup p1 p2 s) = network s"
  "locked (cleanup p1 p2 s) = locked s"
  "aborted (cleanup p1 p2 s) = aborted s"
  by (simp_all add: cleanup_def log_error_def Let_def)

lemma sweep_entry_network: "network (sweep_entry now e s) = network s"
  by (simp add: sweep_entry_def Let_def delete_temp_files_frame)

lemma fold_sweep_entry_network: "network (fold (sweep_entry now) es s) = network s"
  by (induction es arbitrary: s) (simp_all add: sweep_entry_network)

lemma serve_network: "network (serve r s) = network s"
  by (cases r)
     (simp_all add: init_upload_def upload_status_def cancel_upload_def Let_def
        delete_temp_files_frame sweep_def fold_sweep_entry_network split: option.splits)

lemma interleave_network: "network (interleave rs s) = network s"
  unfolding interleave_def
  by (induction rs arbitrary: s) (simp_all add: serve_network)


lemma oversize_message:
  "uploadId \<noteq> [] \<Longrightarrow> map_of (uploadStatuses s) uploadId \<noteq> None \<Longrightarrow>
   size_f file > maxSize fileType \<Longrightarrow>
     fst (upload_file (Some file) fileType uploadId env s) =
       Response 400 (ErrorBody (too_large fileType))"
  by (auto simp: upload_file_def Let_def)


section \<open>Facts about the proxy\<close>

text \<open>
  Claim C9 as the specification has it: the proxy hands the platform's JSON back as
  it is and answers 500 only when the transport fails.  Here the platform does
  answer, with a JSON body and a status that is not a success; the proxy does not
  pass that body on and answers 500.
\<close>

theorem proxy_hides_platform_error:
  "refusing (proxy_request ''shop.example'' ''token'' ''query: shop name'')
     = Returned \<lparr>response_ok = False,
         response_json = Returned ''errors: Invalid API key or access token''\<rparr>
   \<and> shopify_admin_proxy ''shop.example'' ''token'' refusing ''query: shop name''
     \<noteq> Verbatim ''errors: Invalid API key or access token''
   \<and> shopify_admin_proxy ''shop.example'' ''token'' refusing ''query: shop name''
     = Failure 500 ''Internal server error''"
  by (simp add: shopify_admin_proxy_def refusing_def)

text \<open>
  Claim C9, amended: the proxy sends the request body and the server's access token
  to the platform's GraphQL endpoint.  It returns the platform's JSON as it is
  exactly when the platform answers with a success status and a body that parses;
  in every other case (no answer, a status that is not a success, a body that does
  not parse) it answers 500 with the message \<open>Internal server error\<close>.
\<close>

theorem proxy_verbatim_on_success:
  "payload (proxy_request domain token req_body) = req_body
   \<and> to_url (proxy_request domain token req_body)
        = ''https://'' @ domain @ ''/admin/api/2025-04/graphql.json''
   \<and> map_of (headers (proxy_request domain token req_body)) ''X-Shopify-Access-Token''
        = Some token
   \<and> (shopify_admin_proxy domain token platform req_body = Verbatim data \<longleftrightarrow>
        (\<exists>r. platform (proxy_request domain token req_body) = Returned r
             \<and> response_ok r \<and> response_json r = Returned data))
   \<and> ((\<forall>d. shopify_admin_proxy domain token platform req_body \<noteq> Verbatim d) \<longrightarrow>
        shopify_admin_proxy domain token platform req_body
          = Failure 500 ''Internal server error'')"
  by (auto simp: shopify_admin_proxy_def proxy_request_def split: outcome.splits)


theorem proxy_verbatim_on_success_witness:
  "shopify_admin_proxy ''shop.example'' ''token'' answering ''query: shop name''
     = Verbatim ''data for query: shop name''
   \<and> payload (proxy_request ''shop.example'' ''token'' ''query: shop name'')
     = ''query: shop name''"
proof -
  have "\<exists>r. answering (proxy_request ''shop.example'' ''token'' ''query: shop name'') = Returned r
       \<and> response_ok r \<and> response_json r = Returned ''data for query: shop name''"
    by (simp add: answering_def proxy_request_def)
  with proxy_verbatim_on_success
         [of "''shop.example''" "''token''" "''query: shop name''" answering
             "''data for query: shop name''"]
  show ?thesis by simp
qed

section \<open>Records outlive their jobs\<close>

lemma settle_200:
  "fst (settle f u cp r s) = Response 200 b \<Longrightarrow>
     \<exists>st'. map_of (uploadStatuses (snd (settle f u cp r s))) u = Some st'
        \<and> status st' = Some Completed"
  by (cases r)
     (simp_all add: settle_def cancelled_by_user_def cleanup_frame set_fields_table
        split: if_splits)

lemma settle_500:
  "fst (settle f u cp r s) = Response 500 b \<Longrightarrow>
     \<exists>st'. map_of (uploadStatuses (snd (settle f u cp r s))) u = Some st'
        \<and> status st' = Some Error"
  by (cases r)
     (simp_all add: settle_def cancelled_by_user_def cleanup_frame set_fields_table
        split: if_splits)

lemma send_to_shopify_200:
  "fst (send_to_shopify f ft u cp env s) = Response 200 b \<Longrightarrow>
     \<exists>st'. map_of (uploadStatuses (snd (send_to_shopify f ft u cp env s))) u = Some st'
        \<and> status st' = Some Completed"
  by (cases "is_cancelled u s")
     (simp_all add: send_to_shopify_def cancelled_by_user_def settle_200)

lemma send_to_shopify_500:
  "fst (send_to_shopify f ft u cp env s) = Response 500 b \<Longrightarrow>
     \<exists>st'. map_of (uploadStatuses (snd (send_to_shopify f ft u cp env s))) u = Some st'
        \<and> status st' = Some Error"
  by (cases "is_cancelled u s")
     (simp_all add: send_to_shopify_def cancelled_by_user_def settle_500)

lemma after_compress_200:
  "fst (after_compress f ft u cp env r s) = Response 200 b \<Longrightarrow>
     \<exists>st'. map_of (uploadStatuses (snd (after_compress f ft u cp env r s))) u = Some st'
        \<and> status st' = Some Completed"
  by (cases r)
     (auto simp: after_compress_def cancelled_by_user_def loading_error_def
        split: if_splits outcome.splits dest: send_to_shopify_200)

lemma after_compress_500:
  "fst (after_compress f ft u cp env r s) = Response 500 (ErrorBody ''Error uploading file'') \<Longrightarrow>
     \<exists>st'. map_of (uploadStatuses (snd (after_compress f ft u cp env r s))) u = Some st'
        \<and> status st' = Some Error"
  by (cases r)
     (auto simp: after_compress_def cancelled_by_user_def loading_error_def
        split: if_splits outcome.splits dest: send_to_shopify_500)

lemma upload_file_200:
  "fst (upload_file req ft u env s) = Response 200 b \<Longrightarrow>
     \<exists>st'. map_of (uploadStatuses (snd (upload_file req ft u env s))) u = Some st'
        \<and> status st' = Some Completed"
  unfolding upload_file_def compress_and_send_def
  by (auto simp: Let_def cancelled_by_user_def
      split: if_splits option.splits dest: after_compress_200)

lemma upload_file_500:
  "fst (upload_file req ft u env s) = Response 500 (ErrorBody ''Error uploading file'') \<Longrightarrow>
     \<exists>st'. map_of (uploadStatuses (snd (upload_file req ft u env s))) u = Some st'
        \<and> status st' = Some Error"
  unfolding upload_file_def compress_and_send_def
  by (auto simp: Let_def cancelled_by_user_def
      split: if_splits option.splits dest: after_compress_500)

lemma upload_status_known:
  "uploadId \<noteq> [] \<Longrightarrow> map_of (uploadStatuses s) uploadId = Some st \<Longrightarrow>
     upload_status uploadId s = (Response 200 (StatusBody st), s)"
  by (simp add: upload_status_def)

lemma upload_status_unknown:
  "map_of (uploadStatuses s) uploadId = None \<Longrightarrow>
     upload_status uploadId s = (Response 404 (ErrorBody ''Upload not found''), s)"
  by (simp add: upload_status_def)

text \<open>
  Claim C10: neither cancelling a job nor its completion or failure removes its
  record.  After a cancel request the status endpoint returns the record, now
  cancelled; status requests, and cancel and init requests for other jobs, leave
  the record as it is; an upload that answered 200 or 500 \<open>Error uploading file\<close>
  has left a completed or failed record behind.  The sweep is what removes it,
  and it does so exactly when the record carries a timestamp more than 3600000
  milliseconds older than the time of the sweep.
\<close>

theorem record_kept_until_swept:
  assumes "uploadId \<noteq> []" and "distinct (map fst (uploadStatuses s))"
    and "map_of (uploadStatuses s) uploadId = Some st"
  shows "fst (upload_status uploadId (snd (cancel_upload uploadId s))) =
           Response 200 (StatusBody
             (st\<lparr>status := Some Cancelled, error := Some ''Upload cancelled by user''\<rparr>))
     \<and> fst (upload_status uploadId (serve (UploadStatusRequest anyId) s))
           = Response 200 (StatusBody st)
     \<and> (other \<noteq> uploadId \<longrightarrow>
          fst (upload_status uploadId (serve (CancelUpload other) s))
            = Response 200 (StatusBody st)
          \<and> fst (upload_status uploadId (serve (InitUpload filename fileType other t) s))
            = Response 200 (StatusBody st))
     \<and> fst (upload_status uploadId (sweep now s)) =
          (if expired now st then Response 404 (ErrorBody ''Upload not found'')
           else Response 200 (StatusBody st))
     \<and> (\<forall>b. fst (upload_file req fileType uploadId env s) = Response 200 b \<longrightarrow>
          (\<exists>st'. fst (upload_status uploadId (snd (upload_file req fileType uploadId env s)))
                   = Response 200 (StatusBody st') \<and> status st' = Some Completed))
     \<and> (fst (upload_file req fileType uploadId env s)
            = Response 500 (ErrorBody ''Error uploading file'') \<longrightarrow>
          (\<exists>st'. fst (upload_status uploadId (snd (upload_file req fileType uploadId env s)))
                   = Response 200 (StatusBody st') \<and> status st' = Some Error))"
proof (intro conjI impI allI)
  note known = assms(1) assms(3)
  show "fst (upload_status uploadId (snd (cancel_upload uploadId s))) =
           Response 200 (StatusBody
             (st\<lparr>status := Some Cancelled, error := Some ''Upload cancelled by user''\<rparr>))"
    by (simp add: upload_status_def cancel_upload_table [OF known] assms(1))
  show "fst (upload_status uploadId (serve (UploadStatusRequest anyId) s))
           = Response 200 (StatusBody st)"
    using known by (simp add: upload_status_def split: option.splits)
  show "fst (upload_status uploadId (sweep now s)) =
          (if expired now st then Response 404 (ErrorBody ''Upload not found'')
           else Response 200 (StatusBody st))"
    using known by (simp add: upload_status_def sweep_table [OF assms(2)])
next
  assume o: "other \<noteq> uploadId"
  show "fst (upload_status uploadId (serve (CancelUpload other) s))
            = Response 200 (StatusBody st)"
  proof (cases "other = [] \<or> map_of (uploadStatuses s) other = None")
    case True
    then have "cancel_upload other s = (Response 404 (ErrorBody ''Upload not found''), s)"
      by (auto simp: cancel_upload_def)
    then show ?thesis using assms by (simp add: upload_status_def)
  next
    case False
    then obtain so where so: "other \<noteq> []" "map_of (uploadStatuses s) other = Some so"
      by auto
    show ?thesis
      using assms o by (simp add: upload_status_def cancel_upload_table [OF so])
  qed
  show "fst (upload_status uploadId (serve (InitUpload filename fileType other t) s))
            = Response 200 (StatusBody st)"
    using assms o by (simp add: upload_status_def init_upload_def update_conv')
next
  fix b
  assume "fst (upload_file req fileType uploadId env s) = Response 200 b"
  from upload_file_200 [OF this]
  obtain st' where "map_of (uploadStatuses (snd (upload_file req fileType uploadId env s))) uploadId
      = Some st'" "status st' = Some Completed"
    by auto
  then show "\<exists>st'. fst (upload_status uploadId (snd (upload_file req fileType uploadId env s)))
                   = Response 200 (StatusBody st') \<and> status st' = Some Completed"
    using assms(1) by (simp add: upload_status_def)
next
  assume "fst (upload_file req fileType uploadId env s)
            = Response 500 (ErrorBody ''Error uploading file'')"
  from upload_file_500 [OF this]
  obtain st' where "map_of (uploadStatuses (snd (upload_file req fileType uploadId env s))) uploadId
      = Some st'" "status st' = Some Error"
    by auto
  then show "\<exists>st'. fst (upload_status uploadId (snd (upload_file req fileType uploadId env s)))
                   = Response 200 (StatusBody st') \<and> status st' = Some Error"
    using assms(1) by (simp add: upload_status_def)
qed

lemma finished_keys: "distinct (map fst (uploadStatuses finished))"
  by (simp add: finished_def run_defs)

lemma registered_record:
  "map_of (uploadStatuses registered) ''u1'' =
     Some \<lparr>id_f = Some ''u1'', status = Some Waiting, progress = Some 0,
       originalFilename = Some ''cat.png'', error = None, url = None,
       type_f = Some ''image'', timestamp = Some 1000, abortController = None,
       tempFiles = Some []\<rparr>"
  by (simp add: run_defs)

theorem record_kept_until_swept_witness:
  "fst (upload_status ''u1'' (snd (cancel_upload ''u1'' finished))) =
     Response 200 (StatusBody
       \<lparr>id_f = Some ''u1'', status = Some Cancelled, progress = Some 100,
        originalFilename = Some ''cat.png'', error = Some ''Upload cancelled by user'',
        url = Some ''https://cdn.example/cat.jpg'', type_f = Some ''image'',
        timestamp = Some 1000, abortController = Some 2,
        tempFiles = Some [''temp/1-cat.png'', ''temp/compressed-1-cat.png'']\<rparr>)
   \<and> code (fst (upload_status ''u1'' (sweep 3601000 finished))) = 200
   \<and> fst (upload_status ''u1'' (sweep 3601001 finished))
       = Response 404 (ErrorBody ''Upload not found'')
   \<and> (\<exists>st'. fst (upload_status ''u1''
                (snd (upload_file (Some cat_png) ''image'' ''u1'' smooth registered)))
              = Response 200 (StatusBody st') \<and> status st' = Some Completed)"
proof -
  have known: "''u1'' \<noteq> []" by simp
  have reg: "distinct (map fst (uploadStatuses registered))"
    by (simp add: run_defs)
  have ok: "fst (upload_file (Some cat_png) ''image'' ''u1'' smooth registered)
      = Response 200 (UrlBody (Some ''https://cdn.example/cat.jpg''))"
    by (simp add: run_defs)
  note a = record_kept_until_swept [OF known finished_keys finished_record, where now = 3601000]
  note b = record_kept_until_swept [OF known finished_keys finished_record, where now = 3601001]
  note c = record_kept_until_swept [OF known reg registered_record,
      where req = "Some cat_png" and fileType = "''image''" and env = smooth]
  from a have w1: "fst (upload_status ''u1'' (snd (cancel_upload ''u1'' finished))) =
     Response 200 (StatusBody
       \<lparr>id_f = Some ''u1'', status = Some Cancelled, progress = Some 100,
        originalFilename = Some ''cat.png'', error = Some ''Upload cancelled by user'',
        url = Some ''https://cdn.example/cat.jpg'', type_f = Some ''image'',
        timestamp = Some 1000, abortController = Some 2,
        tempFiles = Some [''temp/1-cat.png'', ''temp/compressed-1-cat.png'']\<rparr>)"
    by simp
  from a have w2: "code (fst (upload_status ''u1'' (sweep 3601000 finished))) = 200"
    by (simp add: expired_def)
  from b have w3: "fst (upload_status ''u1'' (sweep 3601001 finished))
       = Response 404 (ErrorBody ''Upload not found'')"
    by (simp add: expired_def)
  from c ok have w4: "\<exists>st'. fst (upload_status ''u1''
                (snd (upload_file (Some cat_png) ''image'' ''u1'' smooth registered)))
              = Response 200 (StatusBody st') \<and> status st' = Some Completed"
    by blast
  from w1 w2 w3 w4 show ?thesis by (intro conjI) assumption+
qed


section \<open>Facts about the polling loop\<close>

lemma issue_query_network:
  "network (issue_query attempt fileId uploadId ps s) =
     network s @ [Fetch (NodeQuery fileId) (Some (controllers s))]"
  by (simp add: issue_query_def interleave_network send_def mutate_frame)

lemma wait_interval_network:
  "network (wait_interval attempt interval ps logged s) = network s @ [Sleep interval]"
  by (simp add: wait_interval_def interleave_network sleep_def log_caught_def log_error_def
      split: option.splits)

lemma polling_trace:
  "\<exists>tr. network (snd (waitForFileReady_from attempt fileId uploadId maxAttempts interval ps s))
          = network s @ tr
       \<and> paced interval tr
       \<and> length (filter is_node_query tr) \<le> maxAttempts - attempt
       \<and> (\<forall>e \<in> set tr. is_node_query e \<or> e = Sleep interval)"
proof (induction n \<equiv> "maxAttempts - attempt" arbitrary: attempt s)
  case 0
  then have "\<not> attempt < maxAttempts" by simp
  then show ?case by (simp add: waitForFileReady_from.simps)
next
  case (Suc n)
  then have lt: "attempt < maxAttempts" by simp
  let ?s1 = "issue_query attempt fileId uploadId ps s"
  let ?q = "Fetch (NodeQuery fileId) (Some (controllers s))"
  show ?case
  proof (cases "map_of (uploadStatuses s) uploadId = None \<or> is_cancelled uploadId s")
    case True
    then show ?thesis using lt by (simp add: waitForFileReady_from.simps)
  next
    case False
    then obtain st where False: "map_of (uploadStatuses s) uploadId = Some st"
        "\<not> is_cancelled uploadId s"
      by auto
    show ?thesis
    proof (cases "check_node (answer (query (ps attempt)))")
      case (Found u)
      have "network ?s1 = network s @ [?q]" by (rule issue_query_network)
      then show ?thesis using lt False Found
        by (subst waitForFileReady_from.simps) (auto intro!: exI [of _ "[?q]"])
    next
      case Aborted
      have "network ?s1 = network s @ [?q]" by (rule issue_query_network)
      then show ?thesis using lt False Aborted
        by (subst waitForFileReady_from.simps) (auto intro!: exI [of _ "[?q]"])
    next
      case (Again logged)
      let ?s2 = "wait_interval attempt interval ps logged ?s1"
      have n: "n = maxAttempts - Suc attempt" using Suc.hyps(2) by simp
      from Suc.hyps(1) [OF n, of ?s2] obtain tr where
        tr: "network (snd (waitForFileReady_from (Suc attempt) fileId uploadId maxAttempts
                 interval ps ?s2)) = network ?s2 @ tr"
          "paced interval tr" "length (filter is_node_query tr) \<le> maxAttempts - Suc attempt"
          "\<forall>e \<in> set tr. is_node_query e \<or> e = Sleep interval"
        by blast
      have step: "waitForFileReady_from attempt fileId uploadId maxAttempts interval ps s =
          waitForFileReady_from (Suc attempt) fileId uploadId maxAttempts interval ps ?s2"
        using lt False Again by (subst waitForFileReady_from.simps) simp
      have net: "network ?s2 = network s @ [?q, Sleep interval]"
        by (simp add: wait_interval_network issue_query_network)
      show ?thesis
        unfolding step
        using tr lt by (intro exI [of _ "?q # Sleep interval # tr"]) (simp add: net)
    qed
  qed
qed


lemma polling_outcome:
  "(\<forall>a u. attempt \<le> a \<and> a < maxAttempts \<longrightarrow> check_node (answer (query (ps a))) \<noteq> Found u)
   \<Longrightarrow> fst (waitForFileReady_from attempt fileId uploadId maxAttempts interval ps s)
         = Threw timed_out
     \<or> fst (waitForFileReady_from attempt fileId uploadId maxAttempts interval ps s)
         = Threw upload_cancelled"
proof (induction n \<equiv> "maxAttempts - attempt" arbitrary: attempt s)
  case 0
  then have "\<not> attempt < maxAttempts" by simp
  then show ?case by (simp add: waitForFileReady_from.simps)
next
  case (Suc n)
  then have lt: "attempt < maxAttempts" by simp
  show ?case
  proof (cases "map_of (uploadStatuses s) uploadId = None \<or> is_cancelled uploadId s")
    case True
    then show ?thesis using lt by (simp add: waitForFileReady_from.simps)
  next
    case False
    then obtain st where False: "map_of (uploadStatuses s) uploadId = Some st"
        "\<not> is_cancelled uploadId s"
      by auto
    show ?thesis
    proof (cases "check_node (answer (query (ps attempt)))")
      case (Found u)
      with Suc.prems lt show ?thesis by auto
    next
      case Aborted
      then show ?thesis using lt False
        by (subst (1 2) waitForFileReady_from.simps) simp
    next
      case (Again logged)
      let ?s2 = "wait_interval attempt interval ps logged
                   (issue_query attempt fileId uploadId ps s)"
      have n: "n = maxAttempts - Suc attempt" using Suc.hyps(2) by simp
      have later: "\<forall>a u. Suc attempt \<le> a \<and> a < maxAttempts \<longrightarrow>
          check_node (answer (query (ps a))) \<noteq> Found u"
        using Suc.prems by auto
      have step: "waitForFileReady_from attempt fileId uploadId maxAttempts interval ps s =
          waitForFileReady_from (Suc attempt) fileId uploadId maxAttempts interval ps ?s2"
        using lt False Again by (subst waitForFileReady_from.simps) simp
      show ?thesis
        unfolding step by (rule Suc.hyps(1) [OF n later])
    qed
  qed
qed

lemma quiet_query_record:
  assumes "meanwhile (query (ps attempt)) = []" and "pause (ps attempt) = []"
    and "map_of (uploadStatuses s) uploadId = Some st"
  shows "map_of (uploadStatuses (wait_interval attempt interval ps logged
            (issue_query attempt fileId uploadId ps s))) uploadId
         = Some (st\<lparr>abortController := Some (controllers s)\<rparr>)"
  using assms
  by (simp add: wait_interval_def issue_query_def interleave_def sleep_def log_caught_def
      log_error_def send_def mutate_def update_conv' split: option.splits)

lemma polling_times_out:
  assumes "\<forall>a. attempt \<le> a \<and> a < maxAttempts \<longrightarrow>
             meanwhile (query (ps a)) = [] \<and> pause (ps a) = []
             \<and> (\<exists>l. check_node (answer (query (ps a))) = Again l)"
    and "map_of (uploadStatuses s) uploadId = Some st" and "status st \<noteq> Some Cancelled"
  shows "fst (waitForFileReady_from attempt fileId uploadId maxAttempts interval ps s)
           = Threw timed_out
       \<and> length (filter is_node_query
           (network (snd (waitForFileReady_from attempt fileId uploadId maxAttempts interval ps s))))
         = length (filter is_node_query (network s)) + (maxAttempts - attempt)"
  using assms
proof (induction n \<equiv> "maxAttempts - attempt" arbitrary: attempt s st)
  case 0
  then have "\<not> attempt < maxAttempts" by simp
  then show ?case by (simp add: waitForFileReady_from.simps)
next
  case (Suc n)
  then have lt: "attempt < maxAttempts" by simp
  from Suc.prems(1) lt obtain l where
    q: "meanwhile (query (ps attempt)) = []" "pause (ps attempt) = []"
      "check_node (answer (query (ps attempt))) = Again l"
    by auto
  let ?s2 = "wait_interval attempt interval ps l (issue_query attempt fileId uploadId ps s)"
  have nc: "\<not> is_cancelled uploadId s"
    using Suc.prems(2,3) by (simp add: is_cancelled_def)
  have step: "waitForFileReady_from attempt fileId uploadId maxAttempts interval ps s =
      waitForFileReady_from (Suc attempt) fileId uploadId maxAttempts interval ps ?s2"
    using lt nc Suc.prems(2) q(3) by (subst waitForFileReady_from.simps) simp
  have n: "n = maxAttempts - Suc attempt" using Suc.hyps(2) by simp
  have later: "\<forall>a. Suc attempt \<le> a \<and> a < maxAttempts \<longrightarrow>
             meanwhile (query (ps a)) = [] \<and> pause (ps a) = []
             \<and> (\<exists>l. check_node (answer (query (ps a))) = Again l)"
    using Suc.prems(1) by auto
  have rec: "map_of (uploadStatuses ?s2) uploadId
      = Some (st\<lparr>abortController := Some (controllers s)\<rparr>)"
    using q(1,2) Suc.prems(2) by (rule quiet_query_record)
  have still: "status (st\<lparr>abortController := Some (controllers s)\<rparr>) \<noteq> Some Cancelled"
    using Suc.prems(3) by simp
  have net: "network ?s2 = network s @ [Fetch (NodeQuery fileId) (Some (controllers s)),
      Sleep interval]"
    by (simp add: wait_interval_network issue_query_network)
  from Suc.hyps(1) [OF n later rec still] lt show ?case
    unfolding step by (simp add: net)
qed

lemma now_uploading_not_cancelled: "\<not> is_cancelled uploadId (now_uploading uploadId s)"
  by (simp add: is_cancelled_def now_uploading_def set_fields_table)

lemma timed_out_job_fails:
  assumes "fst (upload_to_shopify file fileType uploadId cp env (now_uploading uploadId s))
             = Threw timed_out"
  shows "fst (send_to_shopify file fileType uploadId cp env (now_uploading uploadId s))
           = Response 500 (ErrorBody ''Error uploading file'')
       \<and> (\<exists>st'. map_of (uploadStatuses
                  (snd (send_to_shopify file fileType uploadId cp env (now_uploading uploadId s))))
                  uploadId = Some st'
            \<and> status st' = Some Error
            \<and> error st' = Some ''The file did not become ready in the allotted time.'')"
  using assms
  by (simp add: send_to_shopify_def now_uploading_not_cancelled settle_def timed_out_def
      cleanup_frame set_fields_table)

lemma srv_polling_trace:
  "\<exists>tr. snd (srv_waitForFileReady_from attempt fileId maxAttempts interval nps trace)
          = trace @ tr
       \<and> paced interval tr
       \<and> length (filter is_node_query tr) \<le> maxAttempts - attempt"
proof (induction n \<equiv> "maxAttempts - attempt" arbitrary: attempt trace)
  case 0
  then have "\<not> attempt < maxAttempts" by simp
  then show ?case by (simp add: srv_waitForFileReady_from.simps)
next
  case (Suc n)
  then have lt: "attempt < maxAttempts" by simp
  let ?q = "Fetch (NodeQuery fileId) None"
  have n: "n = maxAttempts - Suc attempt" using Suc.hyps(2) by simp
  from Suc.hyps(1) [OF n, of "trace @ [?q, Sleep interval]"] obtain tr where
    tr: "snd (srv_waitForFileReady_from (Suc attempt) fileId maxAttempts interval nps
               (trace @ [?q, Sleep interval])) = (trace @ [?q, Sleep interval]) @ tr"
      "paced interval tr" "length (filter is_node_query tr) \<le> maxAttempts - Suc attempt"
    by blast
  have one: "paced interval [?q]" "length (filter is_node_query [?q]) \<le> maxAttempts - attempt"
    using lt by simp_all
  have more: "paced interval (?q # Sleep interval # tr)"
    "length (filter is_node_query (?q # Sleep interval # tr)) \<le> maxAttempts - attempt"
    using tr lt by simp_all
  have "snd (srv_waitForFileReady_from attempt fileId maxAttempts interval nps trace)
          = trace @ [?q]
      \<or> snd (srv_waitForFileReady_from attempt fileId maxAttempts interval nps trace)
          = trace @ ?q # Sleep interval # tr"
    using lt tr(1)
    by (subst (1 2) srv_waitForFileReady_from.simps)
       (simp split: outcome.splits option.splits list.splits)
  with one more show ?case by blast
qed

lemma srv_polling_times_out:
  "(\<forall>a. attempt \<le> a \<and> a < maxAttempts \<longrightarrow>
       (\<exists>node. nps a = Returned (Some node) \<and> fileStatus node \<noteq> Some ''READY''))
   \<Longrightarrow> fst (srv_waitForFileReady_from attempt fileId maxAttempts interval nps trace)
         = Threw timed_out"
proof (induction n \<equiv> "maxAttempts - attempt" arbitrary: attempt trace)
  case 0
  then have "\<not> attempt < maxAttempts" by simp
  then show ?case by (simp add: srv_waitForFileReady_from.simps)
next
  case (Suc n)
  then have lt: "attempt < maxAttempts" by simp
  from Suc.prems lt obtain node where
    node: "nps attempt = Returned (Some node)" "fileStatus node \<noteq> Some ''READY''"
    by auto
  have n: "n = maxAttempts - Suc attempt" using Suc.hyps(2) by simp
  have later: "\<forall>a. Suc attempt \<le> a \<and> a < maxAttempts \<longrightarrow>
       (\<exists>node. nps a = Returned (Some node) \<and> fileStatus node \<noteq> Some ''READY'')"
    using Suc.prems by auto
  have step: "srv_waitForFileReady_from attempt fileId maxAttempts interval nps trace =
      srv_waitForFileReady_from (Suc attempt) fileId maxAttempts interval nps
        (trace @ [Fetch (NodeQuery fileId) None, Sleep interval])"
    using lt node by (subst srv_waitForFileReady_from.simps) simp
  show ?case unfolding step by (rule Suc.hyps(1) [OF n later])
qed

section \<open>Facts about the upload functions\<close>

lemma sweep_entry_controllers: "controllers (sweep_entry now e s) = controllers s"
  by (simp add: sweep_entry_def Let_def delete_temp_files_frame)

lemma fold_sweep_entry_controllers: "controllers (fold (sweep_entry now) es s) = controllers s"
  by (induction es arbitrary: s) (simp_all add: sweep_entry_controllers)

lemma serve_controllers: "controllers (serve r s) = controllers s"
  by (cases r)
     (simp_all add: init_upload_def upload_status_def cancel_upload_def Let_def
        delete_temp_files_frame sweep_def fold_sweep_entry_controllers split: option.splits)

lemma interleave_controllers: "controllers (interleave rs s) = controllers s"
  unfolding interleave_def
  by (induction rs arbitrary: s) (simp_all add: serve_controllers)

lemmas driver_defs =
  upload_to_shopify_def uploadImageToShopify_def uploadGenericFileToShopify_def
  uploadVideoToShopify_def createStagedUpload_def uploadFileToS3_def fileCreate_def Let_def

lemmas driver_frame =
  interleave_network interleave_controllers set_fields_frame send_def

lemmas eval_defs = run_defs check_node_def timed_out_def upload_cancelled_def
  cancelled_by_user_def cancel_upload_def delete_temp_files_def delete_temp_file_def

lemma embedded_url_returned:
  assumes "files s cp = Some n"
    and "answer (staged_run env) = Returned (Some tg)" and "parameters tg = Some params"
    and "answer (blob_run env) = Returned r" and "ok r"
    and "answer (fileCreate_run env) = Returned js"
    and "(fileType = ''image'' \<and> u = file_prop image_url js)
       \<or> (fileType = ''video'' \<and> u = file_prop source_url js)
       \<or> (fileType \<noteq> ''image'' \<and> fileType \<noteq> ''video'' \<and> u = file_prop file_url js)"
    and "truthy u"
  shows "fst (upload_to_shopify file fileType uploadId cp env s) = Returned u"
    and "network (snd (upload_to_shopify file fileType uploadId cp env s)) =
      network s @
      [Fetch (StagedUploadsCreate (if fileType = ''video'' then ''VIDEO'' else ''FILE'') n)
         (Some (controllers s)),
       Fetch (BlobPost (target_url tg)) (Some (Suc (controllers s))),
       Fetch (FileCreate (if fileType = ''image'' then ''IMAGE''
                          else if fileType = ''video'' then ''VIDEO'' else ''FILE'')
                (resourceUrl tg)) (Some (Suc (Suc (controllers s))))]"
proof -
  consider (image) "fileType = ''image''" "u = file_prop image_url js"
    | (video) "fileType = ''video''" "u = file_prop source_url js"
    | (generic) "fileType \<noteq> ''image''" "fileType \<noteq> ''video''" "u = file_prop file_url js"
    using assms(7) by blast
  then have "fst (upload_to_shopify file fileType uploadId cp env s) = Returned u
    \<and> network (snd (upload_to_shopify file fileType uploadId cp env s)) =
      network s @
      [Fetch (StagedUploadsCreate (if fileType = ''video'' then ''VIDEO'' else ''FILE'') n)
         (Some (controllers s)),
       Fetch (BlobPost (target_url tg)) (Some (Suc (controllers s))),
       Fetch (FileCreate (if fileType = ''image'' then ''IMAGE''
                          else if fileType = ''video'' then ''VIDEO'' else ''FILE'')
                (resourceUrl tg)) (Some (Suc (Suc (controllers s))))]"
  proof cases
    case image
    then show ?thesis using assms(1-6,8)
      by (simp add: driver_defs driver_frame)
  next
    case video
    then show ?thesis using assms(1-6,8)
      by (simp add: driver_defs driver_frame)
  next
    case generic
    then show ?thesis using assms(1-6,8)
      by (simp add: driver_defs driver_frame)
  qed
  then show "fst (upload_to_shopify file fileType uploadId cp env s) = Returned u"
    and "network (snd (upload_to_shopify file fileType uploadId cp env s)) =
      network s @
      [Fetch (StagedUploadsCreate (if fileType = ''video'' then ''VIDEO'' else ''FILE'') n)
         (Some (controllers s)),
       Fetch (BlobPost (target_url tg)) (Some (Suc (controllers s))),
       Fetch (FileCreate (if fileType = ''image'' then ''IMAGE''
                          else if fileType = ''video'' then ''VIDEO'' else ''FILE'')
                (resourceUrl tg)) (Some (Suc (Suc (controllers s))))]"
    by simp_all
qed








lemma send_with_embedded_url:
  assumes "files s cp = Some n"
    and "answer (staged_run env) = Returned (Some tg)" and "parameters tg = Some params"
    and "answer (blob_run env) = Returned r" and "ok r"
    and "answer (fileCreate_run env) = Returned js"
    and "(fileType = ''image'' \<and> u = file_prop image_url js)
       \<or> (fileType = ''video'' \<and> u = file_prop source_url js)
       \<or> (fileType \<noteq> ''image'' \<and> fileType \<noteq> ''video'' \<and> u = file_prop file_url js)"
    and "truthy u"
  shows "fst (send_to_shopify file fileType uploadId cp env (now_uploading uploadId s))
           = Response 200 (UrlBody u)
    \<and> (\<exists>st'. map_of (uploadStatuses
                (snd (send_to_shopify file fileType uploadId cp env (now_uploading uploadId s))))
                uploadId = Some st'
          \<and> status st' = Some Completed \<and> progress st' = Some 100 \<and> url st' = u)
    \<and> network (snd (send_to_shopify file fileType uploadId cp env (now_uploading uploadId s)))
        = network s @
          [Fetch (StagedUploadsCreate (if fileType = ''video'' then ''VIDEO'' else ''FILE'') n)
             (Some (controllers s)),
           Fetch (BlobPost (target_url tg)) (Some (Suc (controllers s))),
           Fetch (FileCreate (if fileType = ''image'' then ''IMAGE''
                              else if fileType = ''video'' then ''VIDEO'' else ''FILE'')
                    (resourceUrl tg)) (Some (Suc (Suc (controllers s))))]
    \<and> filter is_node_query
          (network (snd (send_to_shopify file fileType uploadId cp env
                           (now_uploading uploadId s))))
        = filter is_node_query (network s)"
proof -
  let ?s0 = "now_uploading uploadId s"
  have f: "files ?s0 cp = Some n"
    using assms(1) by (simp add: now_uploading_def set_fields_frame)
  have base: "controllers ?s0 = controllers s" "network ?s0 = network s"
    by (simp_all add: now_uploading_def set_fields_frame)
  note up = embedded_url_returned [OF f assms(2-8), of "file" uploadId]
  have send: "send_to_shopify file fileType uploadId cp env ?s0 =
      (Response 200 (UrlBody u),
       cleanup (path file) cp
         (set_fields uploadId
            (\<lambda>st. st\<lparr>status := Some Completed, progress := Some 100, url := u\<rparr>)
            (snd (upload_to_shopify file fileType uploadId cp env ?s0))))"
    by (simp add: send_to_shopify_def now_uploading_not_cancelled settle_def up(1))
  have net: "network (snd (send_to_shopify file fileType uploadId cp env ?s0))
        = network s @
          [Fetch (StagedUploadsCreate (if fileType = ''video'' then ''VIDEO'' else ''FILE'') n)
             (Some (controllers s)),
           Fetch (BlobPost (target_url tg)) (Some (Suc (controllers s))),
           Fetch (FileCreate (if fileType = ''image'' then ''IMAGE''
                              else if fileType = ''video'' then ''VIDEO'' else ''FILE'')
                    (resourceUrl tg)) (Some (Suc (Suc (controllers s))))]"
    by (simp add: send cleanup_frame set_fields_frame up(2) base)
  have "filter is_node_query
          (network (snd (send_to_shopify file fileType uploadId cp env ?s0)))
        = filter is_node_query (network s)"
    unfolding net by simp
  moreover have "\<exists>st'. map_of (uploadStatuses
                (snd (send_to_shopify file fileType uploadId cp env ?s0))) uploadId = Some st'
          \<and> status st' = Some Completed \<and> progress st' = Some 100 \<and> url st' = u"
    by (simp add: send cleanup_frame set_fields_table)
  ultimately show ?thesis using net by (simp add: send)
qed



lemma image_upload_completes_without_polling:
  assumes "uploadId \<noteq> []" and "map_of (uploadStatuses s) uploadId = Some st"
    and "size_f file \<le> maxSize ''image''"
    and "answer (sharp_run env) = Returned m"
    and "answer (staged_run env) = Returned (Some tg)" and "parameters tg = Some params"
    and "answer (blob_run env) = Returned r" and "ok r"
    and "answer (fileCreate_run env) = Returned js"
    and "truthy (file_prop image_url js)"
  shows "fst (upload_file (Some file) ''image'' uploadId env s)
           = Response 200 (UrlBody (file_prop image_url js))"
    and "\<exists>st'. map_of (uploadStatuses (snd (upload_file (Some file) ''image'' uploadId env s)))
            uploadId = Some st' \<and> status st' = Some Completed"
    and "filter is_node_query (network (snd (upload_file (Some file) ''image'' uploadId env s)))
           = filter is_node_query (network s)"
proof -
  let ?s2 = "set_fields uploadId (\<lambda>st. st\<lparr>status := Some Compressing, progress := Some 10\<rparr>)
               (push_temp uploadId (path file) s)"
  let ?s3 = "push_temp uploadId (compressed_path file) ?s2"
  let ?s4 = "(interleave (meanwhile (sharp_run env)) ?s3)
               \<lparr>files := (files (interleave (meanwhile (sharp_run env)) ?s3))
                   (compressed_path file \<mapsto> m)\<rparr>"
  have nc: "\<not> is_cancelled uploadId ?s2"
    by (simp add: is_cancelled_def set_fields_table)
  have comp: "compress file ''image'' uploadId (compressed_path file) env ?s3 = (Returned (), ?s4)"
    using assms(4) by (simp add: compress_def compressImage_def Let_def)
  have whole: "upload_file (Some file) ''image'' uploadId env s =
      send_to_shopify file ''image'' uploadId (compressed_path file) env
        (now_uploading uploadId ?s4)"
    using assms(1-3) nc
    by (simp add: upload_file_def Let_def compress_and_send_def comp after_compress_def)
  have f: "files ?s4 (compressed_path file) = Some m" by simp
  have net: "network ?s4 = network s"
    by (simp add: interleave_network push_temp_frame set_fields_frame)
  have kind: "(''image'' = ''image'' \<and> file_prop image_url js = file_prop image_url js)
       \<or> (''image'' = ''video'' \<and> file_prop image_url js = file_prop source_url js)
       \<or> (''image'' \<noteq> ''image'' \<and> ''image'' \<noteq> ''video''
            \<and> file_prop image_url js = file_prop file_url js)"
    by simp
  note main = send_with_embedded_url [OF f assms(5-9) kind assms(10), of "file" uploadId]
  show "fst (upload_file (Some file) ''image'' uploadId env s)
           = Response 200 (UrlBody (file_prop image_url js))"
    using main by (simp add: whole)
  show "\<exists>st'. map_of (uploadStatuses (snd (upload_file (Some file) ''image'' uploadId env s)))
            uploadId = Some st' \<and> status st' = Some Completed"
    using main unfolding whole by blast
  show "filter is_node_query (network (snd (upload_file (Some file) ''image'' uploadId env s)))
           = filter is_node_query (network s)"
    using main unfolding whole net by blast
qed

lemma srv_embedded_url_skips_polling:
  assumes "size_m file \<le> srv_maxSize fileType" and "fileType \<noteq> ''video''"
    and "staged_answer env = Returned (Some tg)" and "parameters tg = Some params"
    and "blob_answer env = Returned r" and "ok r"
    and "fileCreate_answer env = Returned js"
    and "(fileType = ''image'' \<and> truthy (file_prop image_url js) \<and> u = file_prop image_url js)
       \<or> (fileType \<noteq> ''image'' \<and> truthy (file_prop source_url js)
            \<and> u = file_prop source_url js)
       \<or> (fileType \<noteq> ''image'' \<and> \<not> truthy (file_prop source_url js)
            \<and> truthy (file_prop file_url js) \<and> u = file_prop file_url js)
       \<or> (fileType = ''image'' \<and> \<not> truthy (file_prop image_url js)
            \<and> truthy (file_prop file_url js) \<and> u = file_prop file_url js)"
  shows "srv_upload_file (Some file) fileType env =
     (Response 200 (UrlBody u),
      [Fetch (StagedUploadsCreate ''FILE'' (size_m file)) None,
       Fetch (BlobPost (target_url tg)) None,
       Fetch (FileCreate (if fileType = ''image'' then ''IMAGE'' else ''VIDEO'')
                (resourceUrl tg)) None])"
  using assms
  by (auto simp: srv_upload_file_def srv_staged_upload_def srv_create_and_wait_def Let_def)

text \<open>
  Claim C4: \<open>waitForFileReady\<close> sends at most \<open>maxAttempts\<close> status queries, each one
  but the last followed by a wait of \<open>interval\<close>.  If no attempt finds the file ready
  it throws the timeout error, or the cancellation error when the job was cancelled
  or evicted meanwhile; left alone by other requests it sends exactly \<open>maxAttempts\<close>
  queries and then times out.  A timeout thrown inside the upload makes the handler
  answer 500 and leaves the job in the error state with the timeout message.  The
  loop of server.ts has the same bound and times out when no answer is \<open>READY\<close>.
  (The upload functions call it with 30 attempts and 5000 milliseconds.)
\<close>

theorem polling_is_bounded:
  "(\<exists>tr. network (snd (waitForFileReady fileId uploadId maxAttempts interval ps s))
            = network s @ tr
         \<and> paced interval tr
         \<and> length (filter is_node_query tr) \<le> maxAttempts
         \<and> (\<forall>e \<in> set tr. is_node_query e \<or> e = Sleep interval))
   \<and> ((\<forall>a u. a < maxAttempts \<longrightarrow> check_node (answer (query (ps a))) \<noteq> Found u) \<longrightarrow>
         fst (waitForFileReady fileId uploadId maxAttempts interval ps s) = Threw timed_out
         \<or> fst (waitForFileReady fileId uploadId maxAttempts interval ps s)
              = Threw upload_cancelled)
   \<and> ((\<forall>a. a < maxAttempts \<longrightarrow>
             meanwhile (query (ps a)) = [] \<and> pause (ps a) = []
             \<and> (\<exists>l. check_node (answer (query (ps a))) = Again l))
        \<and> map_of (uploadStatuses s) uploadId = Some st \<and> status st \<noteq> Some Cancelled \<longrightarrow>
         fst (waitForFileReady fileId uploadId maxAttempts interval ps s) = Threw timed_out
         \<and> length (filter is_node_query
               (network (snd (waitForFileReady fileId uploadId maxAttempts interval ps s))))
             = length (filter is_node_query (network s)) + maxAttempts)
   \<and> (fst (upload_to_shopify file fileType uploadId cp env (now_uploading uploadId s))
          = Threw timed_out \<longrightarrow>
         fst (send_to_shopify file fileType uploadId cp env (now_uploading uploadId s))
           = Response 500 (ErrorBody ''Error uploading file'')
         \<and> (\<exists>st'. map_of (uploadStatuses
                  (snd (send_to_shopify file fileType uploadId cp env (now_uploading uploadId s))))
                  uploadId = Some st'
              \<and> status st' = Some Error
              \<and> error st' = Some ''The file did not become ready in the allotted time.''))
   \<and> (\<exists>tr. snd (srv_waitForFileReady fileId maxAttempts interval nps trace) = trace @ tr
         \<and> paced interval tr
         \<and> length (filter is_node_query tr) \<le> maxAttempts)
   \<and> ((\<forall>a. a < maxAttempts \<longrightarrow>
          (\<exists>node. nps a = Returned (Some node) \<and> fileStatus node \<noteq> Some ''READY'')) \<longrightarrow>
         fst (srv_waitForFileReady fileId maxAttempts interval nps trace) = Threw timed_out)"
proof -
  have p1: "\<exists>tr. network (snd (waitForFileReady fileId uploadId maxAttempts interval ps s))
            = network s @ tr
         \<and> paced interval tr
         \<and> length (filter is_node_query tr) \<le> maxAttempts
         \<and> (\<forall>e \<in> set tr. is_node_query e \<or> e = Sleep interval)"
    using polling_trace [of 0 fileId uploadId maxAttempts interval ps s]
    by (simp add: waitForFileReady_def)
  have p5: "\<exists>tr. snd (srv_waitForFileReady fileId maxAttempts interval nps trace) = trace @ tr
         \<and> paced interval tr
         \<and> length (filter is_node_query tr) \<le> maxAttempts"
    using srv_polling_trace [of 0 fileId maxAttempts interval nps trace]
    by (simp add: srv_waitForFileReady_def)
  have p2: "(\<forall>a u. a < maxAttempts \<longrightarrow> check_node (answer (query (ps a))) \<noteq> Found u) \<longrightarrow>
         fst (waitForFileReady fileId uploadId maxAttempts interval ps s) = Threw timed_out
         \<or> fst (waitForFileReady fileId uploadId maxAttempts interval ps s)
              = Threw upload_cancelled"
  proof
    assume "\<forall>a u. a < maxAttempts \<longrightarrow> check_node (answer (query (ps a))) \<noteq> Found u"
    then have "\<forall>a u. 0 \<le> a \<and> a < maxAttempts \<longrightarrow>
        check_node (answer (query (ps a))) \<noteq> Found u"
      by simp
    from polling_outcome [OF this]
    show "fst (waitForFileReady fileId uploadId maxAttempts interval ps s) = Threw timed_out
         \<or> fst (waitForFileReady fileId uploadId maxAttempts interval ps s)
              = Threw upload_cancelled"
      by (simp add: waitForFileReady_def)
  qed
  have p3: "(\<forall>a. a < maxAttempts \<longrightarrow>
             meanwhile (query (ps a)) = [] \<and> pause (ps a) = []
             \<and> (\<exists>l. check_node (answer (query (ps a))) = Again l))
        \<and> map_of (uploadStatuses s) uploadId = Some st \<and> status st \<noteq> Some Cancelled \<longrightarrow>
         fst (waitForFileReady fileId uploadId maxAttempts interval ps s) = Threw timed_out
         \<and> length (filter is_node_query
               (network (snd (waitForFileReady fileId uploadId maxAttempts interval ps s))))
             = length (filter is_node_query (network s)) + maxAttempts"
  proof
    assume h: "(\<forall>a. a < maxAttempts \<longrightarrow>
             meanwhile (query (ps a)) = [] \<and> pause (ps a) = []
             \<and> (\<exists>l. check_node (answer (query (ps a))) = Again l))
        \<and> map_of (uploadStatuses s) uploadId = Some st \<and> status st \<noteq> Some Cancelled"
    then have q: "\<forall>a. 0 \<le> a \<and> a < maxAttempts \<longrightarrow>
             meanwhile (query (ps a)) = [] \<and> pause (ps a) = []
             \<and> (\<exists>l. check_node (answer (query (ps a))) = Again l)"
      and r: "map_of (uploadStatuses s) uploadId = Some st" "status st \<noteq> Some Cancelled"
      by simp_all
    from polling_times_out [OF q r, of fileId interval]
    show "fst (waitForFileReady fileId uploadId maxAttempts interval ps s) = Threw timed_out
         \<and> length (filter is_node_query
               (network (snd (waitForFileReady fileId uploadId maxAttempts interval ps s))))
             = length (filter is_node_query (network s)) + maxAttempts"
      by (simp add: waitForFileReady_def)
  qed
  have p4: "fst (upload_to_shopify file fileType uploadId cp env (now_uploading uploadId s))
          = Threw timed_out \<longrightarrow>
         fst (send_to_shopify file fileType uploadId cp env (now_uploading uploadId s))
           = Response 500 (ErrorBody ''Error uploading file'')
         \<and> (\<exists>st'. map_of (uploadStatuses
                  (snd (send_to_shopify file fileType uploadId cp env (now_uploading uploadId s))))
                  uploadId = Some st'
              \<and> status st' = Some Error
              \<and> error st' = Some ''The file did not become ready in the allotted time.'')"
    using timed_out_job_fails [of "file" fileType uploadId cp env s] by blast
  have p6: "(\<forall>a. a < maxAttempts \<longrightarrow>
          (\<exists>node. nps a = Returned (Some node) \<and> fileStatus node \<noteq> Some ''READY'')) \<longrightarrow>
         fst (srv_waitForFileReady fileId maxAttempts interval nps trace) = Threw timed_out"
  proof
    assume "\<forall>a. a < maxAttempts \<longrightarrow>
          (\<exists>node. nps a = Returned (Some node) \<and> fileStatus node \<noteq> Some ''READY'')"
    then have "\<forall>a. 0 \<le> a \<and> a < maxAttempts \<longrightarrow>
          (\<exists>node. nps a = Returned (Some node) \<and> fileStatus node \<noteq> Some ''READY'')"
      by simp
    from srv_polling_times_out [OF this]
    show "fst (srv_waitForFileReady fileId maxAttempts interval nps trace) = Threw timed_out"
      by (simp add: srv_waitForFileReady_def)
  qed
  from p1 p2 p3 p4 p5 p6 show ?thesis
    by (intro conjI) assumption+
qed

theorem polling_is_bounded_witness:
  "fst (waitForFileReady ''gid://1'' ''u1'' 30 5000 never_ready encoded) = Threw timed_out
   \<and> length (filter is_node_query
        (network (snd (waitForFileReady ''gid://1'' ''u1'' 30 5000 never_ready encoded)))) = 30
   \<and> fst (send_to_shopify cat_png ''image'' ''u1'' ''temp/compressed-1-cat.png'' stalling
            (now_uploading ''u1'' encoded))
       = Response 500 (ErrorBody ''Error uploading file'')
   \<and> fst (srv_waitForFileReady ''gid://1'' 30 5000
            (\<lambda>n. Returned (Some \<lparr>fileStatus = Some ''PROCESSING'', node_image_url = None,
                                   sources = None, node_url = None\<rparr>)) [])
       = Threw timed_out"
proof -
  let ?st = "\<lparr>id_f = Some ''u1'', status = Some Compressing, progress = Some 10,
       originalFilename = Some ''cat.png'', error = None, url = None,
       type_f = Some ''image'', timestamp = Some 1000, abortController = None,
       tempFiles = Some [''temp/1-cat.png'', ''temp/compressed-1-cat.png'']\<rparr>"
  let ?nps = "\<lambda>n::nat. Returned (Some \<lparr>fileStatus = Some ''PROCESSING'', node_image_url = None,
                                   sources = None, node_url = None\<rparr>)"
  have quiet: "\<forall>a. a < 30 \<longrightarrow>
             meanwhile (query (never_ready a)) = [] \<and> pause (never_ready a) = []
             \<and> (\<exists>l. check_node (answer (query (never_ready a))) = Again l)"
    by (simp add: never_ready_def at_once_def check_node_def)
  have unready: "\<forall>a u. a < 30 \<longrightarrow> check_node (answer (query (never_ready a))) \<noteq> Found u"
    by (simp add: never_ready_def at_once_def check_node_def)
  have rec: "map_of (uploadStatuses encoded) ''u1'' = Some ?st"
    by (simp add: encoded_def suspended_record)
  have st: "status ?st \<noteq> Some Cancelled" by simp
  have net: "network encoded = []"
    by (simp add: encoded_def suspended_def run_defs)
  have up: "fst (upload_to_shopify cat_png ''image'' ''u1'' ''temp/compressed-1-cat.png'' stalling
                  (now_uploading ''u1'' encoded)) = Threw timed_out"
    by (simp add: encoded_def suspended_def stalling_def id_only_def eval_defs
        waitForFileReady_from.simps)
  have srv: "\<forall>a. a < 30 \<longrightarrow>
          (\<exists>node. ?nps a = Returned (Some node) \<and> fileStatus node \<noteq> Some ''READY'')"
    by simp
  from polling_is_bounded [of "''gid://1''" "''u1''" 30 5000 never_ready encoded ?st
      cat_png "''image''" "''temp/compressed-1-cat.png''" stalling ?nps "[]"]
    quiet unready rec st net up srv
  show ?thesis by simp
qed

text \<open>
  Claim C6 asks that the temporary files of a job be deleted when the job reaches
  a terminal state.  On an oversize file the handler returns before its cleanup:
  the job \<open>u2\<close> is then in the error state while the uploaded file, the one path in
  its \<open>tempFiles\<close>, is still in the temp directory.
\<close>

theorem oversize_upload_keeps_temp_file:
  "fst (upload_file (Some big_png) ''image'' ''u2'' smooth registered_big)
     = Response 400 (ErrorBody ''File too large. Images must be under 10MB.'')
   \<and> map_option status
        (map_of (uploadStatuses (snd (upload_file (Some big_png) ''image'' ''u2'' smooth
                                        registered_big))) ''u2'')
       = Some (Some Error)
   \<and> map_option tempFiles
        (map_of (uploadStatuses (snd (upload_file (Some big_png) ''image'' ''u2'' smooth
                                        registered_big))) ''u2'')
       = Some (Some [''temp/2-big.png''])
   \<and> files (snd (upload_file (Some big_png) ''image'' ''u2'' smooth registered_big))
        ''temp/2-big.png'' = Some (11 * 1024 * 1024)"
  by (simp add: big_png_def registered_big_def too_large_def run_defs)

text \<open>
  Claim C7 asks that a cancellation during the transformation abort the job.  Here
  the cancel request for \<open>u1\<close> is served while the image encoder runs.  When the
  encoder is done the handler writes the status \<open>uploading\<close> over \<open>cancelled\<close>, so the
  check for a cancellation that follows finds none: the three platform calls are
  sent, the upload answers 200 and the job ends completed, still carrying the
  message of the cancellation.
\<close>

theorem cancel_while_encoding_is_overridden:
  "fst (upload_file (Some cat_png) ''image'' ''u1'' cancelled_while_encoding registered)
     = Response 200 (UrlBody (Some ''https://cdn.example/cat.jpg''))
   \<and> map_option status
        (map_of (uploadStatuses (snd (upload_file (Some cat_png) ''image'' ''u1''
                                        cancelled_while_encoding registered))) ''u1'')
       = Some (Some Completed)
   \<and> map_option error
        (map_of (uploadStatuses (snd (upload_file (Some cat_png) ''image'' ''u1''
                                        cancelled_while_encoding registered))) ''u1'')
       = Some (Some ''Upload cancelled by user'')
   \<and> network (snd (upload_file (Some cat_png) ''image'' ''u1'' cancelled_while_encoding
                      registered))
       = [Fetch (StagedUploadsCreate ''FILE'' 1024) (Some 0),
          Fetch (BlobPost ''https://blob.example/put'') (Some 1),
          Fetch (FileCreate ''IMAGE'' ''https://blob.example/res'') (Some 2)]"
  by (simp add: cancelled_while_encoding_def eval_defs)






section \<open>More on temporary files\<close>

lemma transformation_failure_falls_back:
  assumes "message e \<noteq> ''Upload cancelled''" and "files s (path file) = Some n"
  shows "after_compress file fileType uploadId cp env (Threw e) s =
     send_to_shopify file fileType uploadId cp env
       (now_uploading uploadId
          ((log_error (compress_error e) s)
             \<lparr>files := (files (log_error (compress_error e) s))(cp \<mapsto> n)\<rparr>))"
  using assms by (simp add: after_compress_def copyFileSync_def log_error_def)

lemma sweep_fold_files:
  "files (fold (sweep_entry now) es s) p =
     (if p \<notin> locked s
         \<and> (\<exists>e \<in> set es. expired now (snd e) \<and> (\<exists>l. tempFiles (snd e) = Some l \<and> p \<in> set l))
      then None else files s p)"
proof (induction es arbitrary: s)
  case Nil
  show ?case by simp
next
  case (Cons e es)
  have lock: "locked (sweep_entry now e s) = locked s"
    by (simp add: sweep_entry_def Let_def delete_temp_files_frame)
  have first: "files (sweep_entry now e s) p =
      (if p \<notin> locked s \<and> expired now (snd e) \<and> (\<exists>l. tempFiles (snd e) = Some l \<and> p \<in> set l)
       then None else files s p)"
    by (cases "tempFiles (snd e)")
       (auto simp: sweep_entry_def Let_def delete_temp_files_def fold_delete_temp_file_files)
  have "files (fold (sweep_entry now) (e # es) s) p =
      files (fold (sweep_entry now) es (sweep_entry now e s)) p"
    by simp
  also have "\<dots> = (if p \<notin> locked s
         \<and> (\<exists>x \<in> set es. expired now (snd x) \<and> (\<exists>l. tempFiles (snd x) = Some l \<and> p \<in> set l))
      then None else files (sweep_entry now e s) p)"
    unfolding Cons.IH lock ..
  also have "\<dots> = (if p \<notin> locked s
         \<and> (\<exists>x \<in> set (e # es). expired now (snd x)
               \<and> (\<exists>l. tempFiles (snd x) = Some l \<and> p \<in> set l))
      then None else files s p)"
    unfolding first by auto
  finally show ?case .
qed

lemma delete_temp_files_idempotent:
  "files (delete_temp_files fs (delete_temp_files fs s)) = files (delete_temp_files fs s)"
  by (cases fs)
     (auto simp: delete_temp_files_def fold_delete_temp_file_files fold_delete_temp_file_frame)

end
